theory Spec2Isabelle
  imports Complex_Main
begin

section \<open>JavaScript numbers\<close>

text \<open>
  The backend is JavaScript. A number is an IEEE double; the model keeps the three special
  values apart and idealises the finite doubles as reals: rounding error, overflow to
  \<open>Infinity\<close> and the sign of zero are not modelled. \<open>js_lt\<close> is \<open><\<close> on numbers
  (false as soon as one side is \<open>NaN\<close>), \<open>js_le\<close> is \<open><=\<close>, \<open>js_round\<close> is
  \<open>Math.round\<close> (round half up), \<open>js_max\<close> is \<open>Math.max\<close> and \<open>js_truthy\<close> is the
  truth value of a number in a condition. Strings are ASCII, so that a character is one
  code unit.
\<close>

datatype jsnum = NaN | NegInf | Fin real | PosInf

fun js_lt :: "jsnum \<Rightarrow> jsnum \<Rightarrow> bool" where
  "js_lt (Fin a) (Fin b) = (a < b)"
| "js_lt (Fin a) PosInf = True"
| "js_lt NegInf (Fin b) = True"
| "js_lt NegInf PosInf = True"
| "js_lt _ _ = False"

fun js_le :: "jsnum \<Rightarrow> jsnum \<Rightarrow> bool" where
  "js_le NaN _ = False"
| "js_le _ NaN = False"
| "js_le a b = (a = b \<or> js_lt a b)"

fun js_neg :: "jsnum \<Rightarrow> jsnum" where
  "js_neg NaN = NaN"
| "js_neg NegInf = PosInf"
| "js_neg (Fin a) = Fin (- a)"
| "js_neg PosInf = NegInf"

fun js_add :: "jsnum \<Rightarrow> jsnum \<Rightarrow> jsnum" where
  "js_add (Fin a) (Fin b) = Fin (a + b)"
| "js_add NaN _ = NaN"
| "js_add _ NaN = NaN"
| "js_add PosInf NegInf = NaN"
| "js_add NegInf PosInf = NaN"
| "js_add PosInf _ = PosInf"
| "js_add _ PosInf = PosInf"
| "js_add NegInf _ = NegInf"
| "js_add _ NegInf = NegInf"

definition js_sub :: "jsnum \<Rightarrow> jsnum \<Rightarrow> jsnum" where
  "js_sub a b = js_add a (js_neg b)"

fun js_sgn :: "jsnum \<Rightarrow> int" where
  "js_sgn NaN = 0"
| "js_sgn NegInf = - 1"
| "js_sgn PosInf = 1"
| "js_sgn (Fin a) = (if a < 0 then - 1 else if a = 0 then 0 else 1)"

fun js_mul :: "jsnum \<Rightarrow> jsnum \<Rightarrow> jsnum" where
  "js_mul (Fin a) (Fin b) = Fin (a * b)"
| "js_mul NaN _ = NaN"
| "js_mul _ NaN = NaN"
| "js_mul a b =
     (if js_sgn a * js_sgn b = 0 then NaN
      else if 0 < js_sgn a * js_sgn b then PosInf else NegInf)"

fun js_div :: "jsnum \<Rightarrow> jsnum \<Rightarrow> jsnum" where
  "js_div NaN _ = NaN"
| "js_div _ NaN = NaN"
| "js_div (Fin a) (Fin b) =
     (if b = 0 then (if a = 0 then NaN else if 0 < a then PosInf else NegInf)
      else Fin (a / b))"
| "js_div (Fin a) _ = Fin 0"
| "js_div a (Fin b) = (if 0 \<le> b then a else js_neg a)"
| "js_div _ _ = NaN"

fun js_truthy :: "jsnum \<Rightarrow> bool" where
  "js_truthy NaN = False"
| "js_truthy (Fin a) = (a \<noteq> 0)"
| "js_truthy _ = True"

fun js_sqrt :: "jsnum \<Rightarrow> jsnum" where
  "js_sqrt NaN = NaN"
| "js_sqrt NegInf = NaN"
| "js_sqrt PosInf = PosInf"
| "js_sqrt (Fin a) = (if a < 0 then NaN else Fin (sqrt a))"

fun js_round :: "jsnum \<Rightarrow> jsnum" where
  "js_round (Fin a) = Fin (of_int \<lfloor>a + 1 / 2\<rfloor>)"
| "js_round a = a"

fun js_max :: "jsnum \<Rightarrow> jsnum \<Rightarrow> jsnum" where
  "js_max NaN _ = NaN"
| "js_max _ NaN = NaN"
| "js_max a b = (if js_lt a b then b else a)"

section \<open>Descriptor Comparator\<close>

text \<open>
  A descriptor reaches the backend as a JSON array. Its elements are the JSON scalars
  whose numeric coercion is fixed: a number, \<open>null\<close> (coerced to \<open>0\<close> by \<open>-\<close>), a
  boolean (\<open>0\<close> or \<open>1\<close>), and the empty object \<open>{}\<close> (coerced to \<open>NaN\<close>). Strings and
  nested arrays, whose coercion goes through the string grammar of the language, are left
  out. A descriptor that is missing (\<open>undefined\<close> or \<open>null\<close>) is \<open>None\<close>.

  \<open>euclideanDistance\<close> is the function of \<^verbatim>\<open>routes/attendance.js\<close>:
  \<^verbatim>\<open>if (!desc1 || !desc2 || desc1.length !== desc2.length) return Infinity;\<close>
  followed by the summation loop and \<open>Math.sqrt\<close>. The loop reads \<open>desc1[i]\<close> and
  \<open>desc2[i]\<close>; a read past the end of \<open>desc2\<close> is \<open>undefined\<close>, coerced to \<open>NaN\<close>.
\<close>

datatype elem = ENum real | ENull | EBool bool | EObj

fun ToNumber :: "elem \<Rightarrow> jsnum" where
  "ToNumber (ENum x) = Fin x"
| "ToNumber ENull = Fin 0"
| "ToNumber (EBool b) = Fin (if b then 1 else 0)"
| "ToNumber EObj = NaN"

type_synonym descriptor = "elem list option"

fun sum_loop :: "elem list \<Rightarrow> elem list \<Rightarrow> jsnum \<Rightarrow> jsnum" where
  "sum_loop [] ys s = s"
| "sum_loop (x # xs) (y # ys) s =
     (let diff = js_sub (ToNumber x) (ToNumber y)
      in sum_loop xs ys (js_add s (js_mul diff diff)))"
| "sum_loop (x # xs) [] s =
     (let diff = js_sub (ToNumber x) NaN
      in sum_loop xs [] (js_add s (js_mul diff diff)))"

definition euclideanDistance :: "descriptor \<Rightarrow> descriptor \<Rightarrow> jsnum" where
  "euclideanDistance desc1 desc2 =
     (case desc1 of
        None \<Rightarrow> PosInf
      | Some d1 \<Rightarrow>
          (case desc2 of
             None \<Rightarrow> PosInf
           | Some d2 \<Rightarrow>
               if length d1 \<noteq> length d2 then PosInf
               else js_sqrt (sum_loop d1 d2 (Fin 0))))"

text \<open>
  The class \<open>FaceRecognitionUtils\<close> of \<^verbatim>\<open>utils/faceRecognition.js\<close> has a distance
  function of its own, which throws on a length mismatch (a read of \<open>.length\<close> on a
  missing input is a \<open>TypeError\<close>), a \<open>compareFaces\<close> that insists on two arrays of length
  128 and clamps the similarity with \<open>Math.max(0, ...)\<close>, and \<open>validateDescriptor\<close>.
  An exception is the left summand of the result.
\<close>

datatype js_error = JsError string | JsTypeError

definition utils_euclideanDistance :: "descriptor \<Rightarrow> descriptor \<Rightarrow> js_error + jsnum" where
  "utils_euclideanDistance desc1 desc2 =
     (case desc1 of
        None \<Rightarrow> Inl JsTypeError
      | Some d1 \<Rightarrow>
          (case desc2 of
             None \<Rightarrow> Inl JsTypeError
           | Some d2 \<Rightarrow>
               if length d1 \<noteq> length d2
               then Inl (JsError ''Descriptors must have the same length'')
               else Inr (js_sqrt (sum_loop d1 d2 (Fin 0)))))"

record comparison =
  cmp_distance :: jsnum
  cmp_similarity :: jsnum
  cmp_isMatch :: bool
  cmp_confidence :: jsnum
  cmp_threshold :: jsnum

fun compareFaces :: "jsnum \<Rightarrow> descriptor \<Rightarrow> descriptor \<Rightarrow> js_error + comparison" where
  "compareFaces recognitionThreshold descriptor1 descriptor2 =
     (case descriptor1 of
        None \<Rightarrow> Inl (JsError ''Descriptors must be arrays'')
      | Some d1 \<Rightarrow>
          (case descriptor2 of
             None \<Rightarrow> Inl (JsError ''Descriptors must be arrays'')
           | Some d2 \<Rightarrow>
               if length d1 \<noteq> 128 \<or> length d2 \<noteq> 128
               then Inl (JsError ''Face descriptors must be 128-dimensional arrays'')
               else
                 (case utils_euclideanDistance descriptor1 descriptor2 of
                    Inl e \<Rightarrow> Inl e
                  | Inr dst \<Rightarrow>
                      (let similarity = js_max (Fin 0) (js_mul (js_sub (Fin 1) dst) (Fin 100))
                       in Inr \<lparr>cmp_distance = dst,
                               cmp_similarity =
                                 js_div (js_round (js_mul similarity (Fin 100))) (Fin 100),
                               cmp_isMatch = js_lt dst recognitionThreshold,
                               cmp_confidence = js_round similarity,
                               cmp_threshold = recognitionThreshold\<rparr>))))"

text \<open>
  A field of a request body is any JSON value, or missing. \<open>truthy\<close> is its truth value
  in a condition; \<open>validateDescriptor\<close> is the predicate of \<open>FaceRecognitionUtils\<close>
  (an array, of length 128, every element a number).
\<close>

datatype field = Missing | FNull | FBool bool | FNum real | FStr string | FObj | FArr "elem list"

fun truthy :: "field \<Rightarrow> bool" where
  "truthy Missing = False"
| "truthy FNull = False"
| "truthy (FBool b) = b"
| "truthy (FNum x) = (x \<noteq> 0)"
| "truthy (FStr s) = (s \<noteq> [])"
| "truthy FObj = True"
| "truthy (FArr xs) = True"

fun is_number :: "elem \<Rightarrow> bool" where
  "is_number (ENum x) = True"
| "is_number _ = False"

fun validateDescriptor :: "field \<Rightarrow> bool" where
  "validateDescriptor (FArr xs) = (if length xs \<noteq> 128 then False else list_all is_number xs)"
| "validateDescriptor _ = False"

section \<open>Matcher\<close>

text \<open>
  \<open>findBestMatch\<close> of \<^verbatim>\<open>routes/attendance.js\<close>. The two nested \<open>for\<close> loops thread
  the pair \<open>(bestMatch, matchedStudent)\<close>, both \<open>null\<close> at the start.
  \<open>candidate_descriptors\<close> is the guard
  \<^verbatim>\<open>if (student.status !== 'active' || !student.faceData || !student.faceData.descriptors) continue;\<close>
  it yields the array the inner loop runs over, or \<open>None\<close> when the student is skipped.
  The threshold parameter has the default \<open>0.6\<close>.
  A student record carries more fields in the database (guardian, timestamps); only the
  fields these routes read are named here.
\<close>

record faceData =
  descriptors :: "descriptor list option"

record student =
  studentId :: string
  name :: string
  sclass :: string
  status :: string
  faceData :: "faceData option"

record match =
  distance :: jsnum
  confidence :: jsnum

type_synonym best = "match option \<times> student option"

fun descriptor_loop :: "descriptor \<Rightarrow> jsnum \<Rightarrow> student \<Rightarrow> descriptor list \<Rightarrow> best \<Rightarrow> best" where
  "descriptor_loop inputDescriptor threshold st [] acc = acc"
| "descriptor_loop inputDescriptor threshold st (d # ds) (bestMatch, matchedStudent) =
     (let dist = euclideanDistance inputDescriptor d
      in descriptor_loop inputDescriptor threshold st ds
           (if js_lt dist threshold \<and>
               (case bestMatch of None \<Rightarrow> True | Some b \<Rightarrow> js_lt dist (distance b))
            then (Some \<lparr>distance = dist,
                         confidence = js_round (js_mul (js_sub (Fin 1) dist) (Fin 100))\<rparr>,
                  Some st)
            else (bestMatch, matchedStudent)))"

fun candidate_descriptors :: "student \<Rightarrow> descriptor list option" where
  "candidate_descriptors st =
     (if status st = ''active''
      then (case faceData st of None \<Rightarrow> None | Some fd \<Rightarrow> descriptors fd)
      else None)"

fun student_loop :: "descriptor \<Rightarrow> jsnum \<Rightarrow> student list \<Rightarrow> best \<Rightarrow> best" where
  "student_loop inputDescriptor threshold [] acc = acc"
| "student_loop inputDescriptor threshold (st # rest) acc =
     (case candidate_descriptors st of
        None \<Rightarrow> student_loop inputDescriptor threshold rest acc
      | Some ds \<Rightarrow>
          student_loop inputDescriptor threshold rest
            (descriptor_loop inputDescriptor threshold st ds acc))"

definition findBestMatch :: "descriptor \<Rightarrow> student list \<Rightarrow> jsnum option \<Rightarrow> best" where
  "findBestMatch inputDescriptor students threshold =
     student_loop inputDescriptor
       (case threshold of None \<Rightarrow> Fin (6 / 10) | Some t \<Rightarrow> t) students (None, None)"

section \<open>Session Resolver\<close>

text \<open>
  Strings are compared as JavaScript compares them, code unit by code unit; \<open>a >= b\<close> is
  \<open>!(a < b)\<close> and \<open>a <= b\<close> is \<open>!(b < a)\<close>. \<open>new Date().toTimeString()\<close> prints the local
  time as \<open>HH:MM:SS\<close> followed by the zone, so its first five characters are \<open>HH:MM\<close>.
  The slot table is the constant object of \<open>getCurrentTimeSlot\<close>; \<open>Object.entries\<close> walks
  it in the order the keys were written.
\<close>

fun str_lt :: "string \<Rightarrow> string \<Rightarrow> bool" where
  "str_lt [] [] = False"
| "str_lt [] (y # ys) = True"
| "str_lt (x # xs) [] = False"
| "str_lt (x # xs) (y # ys) =
     (if (of_char x :: nat) < of_char y then True
      else if (of_char y :: nat) < of_char x then False
      else str_lt xs ys)"

definition str_ge :: "string \<Rightarrow> string \<Rightarrow> bool" where
  "str_ge a b = (\<not> str_lt a b)"

definition str_le :: "string \<Rightarrow> string \<Rightarrow> bool" where
  "str_le a b = (\<not> str_lt b a)"

record date =
  hours :: nat
  minutes :: nat
  seconds :: nat
  zone :: string

definition digit :: "nat \<Rightarrow> char" where
  "digit n = char_of (48 + n)"

definition pad2 :: "nat \<Rightarrow> string" where
  "pad2 n = [digit (n div 10), digit (n mod 10)]"

definition toTimeString :: "date \<Rightarrow> string" where
  "toTimeString d =
     pad2 (hours d) @ '':'' @ pad2 (minutes d) @ '':'' @ pad2 (seconds d) @ '' '' @ zone d"

record slot =
  slot_start :: string
  slot_end :: string
  slot_name :: string

record time_slot =
  ts_type :: string
  ts_name :: string
  ts_active :: bool

definition slots :: "(string \<times> slot) list" where
  "slots =
     [(''morning'',
         \<lparr>slot_start = ''08:00'', slot_end = ''12:00'', slot_name = ''Morning Session''\<rparr>),
      (''meal'',
         \<lparr>slot_start = ''12:00'', slot_end = ''13:00'', slot_name = ''Mid-Day Meal''\<rparr>),
      (''afternoon'',
         \<lparr>slot_start = ''13:00'', slot_end = ''17:00'', slot_name = ''Afternoon Session''\<rparr>)]"

fun slot_loop :: "string \<Rightarrow> (string \<times> slot) list \<Rightarrow> time_slot" where
  "slot_loop time [] =
     \<lparr>ts_type = ''none'', ts_name = ''No Active Session'', ts_active = False\<rparr>"
| "slot_loop time ((key, sl) # rest) =
     (if str_ge time (slot_start sl) \<and> str_le time (slot_end sl)
      then \<lparr>ts_type = key, ts_name = slot_name sl, ts_active = True\<rparr>
      else slot_loop time rest)"

definition getCurrentTimeSlot :: "date \<Rightarrow> time_slot" where
  "getCurrentTimeSlot now = (let time = take 5 (toTimeString now) in slot_loop time slots)"

section \<open>The database document and the two ledgers\<close>

text \<open>
  The whole database is one JSON document, read at the start of a request and written
  back as a whole. A handler is a function from the document it read to its response and
  the document the file holds afterwards. What a request takes from its surroundings is
  in \<open>env\<close>: the clock (\<open>new Date()\<close>, \<open>Date.now()\<close>, \<open>toISOString()\<close>), the random
  tag of a meal identifier, and whether \<open>writeDatabase\<close> succeeds (it returns \<open>false\<close>
  when the file cannot be written). Requests run one after the other; two requests
  interleaved between the read and the write are outside this model.

  The identifier \<^verbatim>\<open>att_${Date.now()}\<close> is kept as its number, and
  \<^verbatim>\<open>MEAL_${Date.now()}_${random}\<close> as the pair of its two parts. Timestamps,
  session labels and student identifiers are strings, or missing.
\<close>

record settings =
  recognitionThreshold :: "jsnum option"

record statistics =
  totalAttendance :: "nat option"
  totalMealsServed :: "nat option"
  lastUpdated :: "string option"

record attendance_record =
  a_id :: nat
  a_studentId :: string
  a_studentName :: string
  a_studentClass :: string
  a_timestamp :: string
  a_date :: string
  a_session :: string
  a_sessionType :: string
  a_status :: string
  a_confidence :: jsnum
  a_createdAt :: string

record meal_record =
  m_id :: "nat \<times> string"
  m_studentId :: string
  m_studentName :: string
  m_studentClass :: string
  m_date :: string
  m_timestamp :: string
  m_status :: string
  m_createdAt :: string
  m_ip :: string
  m_userAgent :: string

record db =
  students :: "student list"
  attendance :: "attendance_record list"
  meals :: "meal_record list"
  settings :: "settings option"
  statistics :: "statistics option"

record env =
  now :: date
  now_ms :: nat
  now_iso :: string
  random_tag :: string
  write_ok :: bool

fun truthy_str :: "string option \<Rightarrow> bool" where
  "truthy_str None = False"
| "truthy_str (Some s) = (s \<noteq> [])"

definition or_else :: "string option \<Rightarrow> string \<Rightarrow> string" where
  "or_else a b = (if truthy_str a then the a else b)"

definition bump :: "nat option \<Rightarrow> nat option" where
  "bump c = Some ((case c of None \<Rightarrow> 0 | Some n \<Rightarrow> n) + 1)"

subsection \<open>Attendance: \<open>POST /api/attendance/mark\<close>\<close>

text \<open>
  The handler of \<^verbatim>\<open>routes/attendance.js\<close>, in its three stages. \<open>validate_mark\<close>
  is the two checks at the top, each answering 400. \<open>mark\<close> reads the threshold
  (\<^verbatim>\<open>db.settings?.recognitionThreshold || 0.6\<close>), calls the Matcher and answers
  ``not recognized'' when no student matched. \<open>mark_matched\<close> is the ledger: the date is
  \<^verbatim>\<open>timestamp.slice(0, 10)\<close>, the session label is \<^verbatim>\<open>session || slot.name\<close>,
  an existing record with the same student, date and label is reported, and otherwise a
  record is pushed and the document written; the result of the write is not looked at.
  Reading \<open>bestMatch.confidence\<close> when \<open>bestMatch\<close> is \<open>null\<close> would throw, and the
  \<open>catch\<close> answers 500.

  The responses are: 400 with its message; not recognized; already marked (student name,
  student id, session, timestamp of the existing record); marked (student name, student
  id, session, timestamp, confidence of the new record); 500.
\<close>

record mark_body =
  faceDescriptor :: field
  timestamp :: "string option"
  session :: "string option"
  sessionType :: "string option"

datatype mark_response =
    Rejected string
  | NotRecognized
  | AlreadyMarked string string string string
  | Marked string string string string jsnum
  | InternalError

definition validate_mark :: "mark_body \<Rightarrow> mark_response + (elem list \<times> string)" where
  "validate_mark body =
     (if truthy (faceDescriptor body) \<and> truthy_str (timestamp body)
      then (case faceDescriptor body of
              FArr arr \<Rightarrow>
                if length arr = 128 then Inr (arr, the (timestamp body))
                else Inl (Rejected ''Invalid face descriptor'')
            | _ \<Rightarrow> Inl (Rejected ''Invalid face descriptor''))
      else Inl (Rejected ''Face descriptor and timestamp required''))"

definition threshold_of :: "db \<Rightarrow> jsnum" where
  "threshold_of d =
     (case settings d of
        None \<Rightarrow> Fin (6 / 10)
      | Some s \<Rightarrow>
          (case recognitionThreshold s of
             None \<Rightarrow> Fin (6 / 10)
           | Some t \<Rightarrow> if js_truthy t then t else Fin (6 / 10)))"

definition mark_matched ::
  "env \<Rightarrow> mark_body \<Rightarrow> string \<Rightarrow> match option \<Rightarrow> student \<Rightarrow> db \<Rightarrow> mark_response \<times> db" where
  "mark_matched e body ts bestMatch matchedStudent d =
     (let attendanceDate = take 10 ts;
          slot = getCurrentTimeSlot (now e);
          sessionName = or_else (session body) (ts_name slot);
          existing = find (\<lambda>a. a_studentId a = studentId matchedStudent \<and>
                                a_date a = attendanceDate \<and>
                                a_session a = sessionName) (attendance d)
      in case existing of
           Some ex \<Rightarrow>
             (AlreadyMarked (name matchedStudent) (studentId matchedStudent) sessionName
                (a_timestamp ex), d)
         | None \<Rightarrow>
             (case bestMatch of
                None \<Rightarrow> (InternalError, d)
              | Some bm \<Rightarrow>
                  (let rec = \<lparr>a_id = now_ms e,
                               a_studentId = studentId matchedStudent,
                               a_studentName = name matchedStudent,
                               a_studentClass = sclass matchedStudent,
                               a_timestamp = ts,
                               a_date = attendanceDate,
                               a_session = sessionName,
                               a_sessionType = or_else (sessionType body) (ts_type slot),
                               a_status = ''present'',
                               a_confidence = confidence bm,
                               a_createdAt = now_iso e\<rparr>;
                       stats = (case statistics d of
                                  None \<Rightarrow> \<lparr>totalAttendance = None, totalMealsServed = None,
                                             lastUpdated = None\<rparr>
                                | Some st \<Rightarrow> st);
                       d' = d\<lparr>attendance := attendance d @ [rec],
                              statistics :=
                                Some (stats\<lparr>totalAttendance := bump (totalAttendance stats)\<rparr>)\<rparr>
                   in (Marked (a_studentName rec) (a_studentId rec) (a_session rec)
                         (a_timestamp rec) (a_confidence rec),
                       if write_ok e then d' else d))))"

definition mark :: "env \<Rightarrow> mark_body \<Rightarrow> db \<Rightarrow> mark_response \<times> db" where
  "mark e body d =
     (case validate_mark body of
        Inl rejection \<Rightarrow> (rejection, d)
      | Inr (arr, ts) \<Rightarrow>
          (case findBestMatch (Some arr) (students d) (Some (threshold_of d)) of
             (bestMatch, None) \<Rightarrow> (NotRecognized, d)
           | (bestMatch, Some matchedStudent) \<Rightarrow>
               mark_matched e body ts bestMatch matchedStudent d))"

subsection \<open>Meals: \<open>POST /api/meal/mark\<close>\<close>

text \<open>
  The handler of \<^verbatim>\<open>server.js\<close>. The date is \<^verbatim>\<open>timestamp.split('T')[0]\<close>, the
  text before the first \<open>T\<close>. The student is looked up by identifier and status before
  the duplicate check. A new record is pushed, then \<open>db.statistics.totalMealsServed\<close> is
  read, which throws when the document has no \<open>statistics\<close> (the \<open>catch\<close> answers 500),
  then the document is written; a failed write answers 500 and nothing is stored.

  The responses are: 400; 404; already marked (message, the existing record, the student's
  name, id and class); served (message, the new record, the same summary); 500 with its
  message.
\<close>

record meal_body =
  meal_studentId :: "string option"
  meal_timestamp :: "string option"
  client_ip :: string
  user_agent :: "string option"

datatype meal_response =
    MealRejected string
  | MealNotFound string
  | MealAlready string meal_record "string \<times> string \<times> string"
  | MealServed string meal_record "string \<times> string \<times> string"
  | MealError string

definition mark_meal :: "env \<Rightarrow> meal_body \<Rightarrow> db \<Rightarrow> meal_response \<times> db" where
  "mark_meal e body d =
     (if truthy_str (meal_studentId body) \<and> truthy_str (meal_timestamp body)
      then
        (let sid = the (meal_studentId body);
             ts = the (meal_timestamp body);
             mealDate = takeWhile (\<lambda>c. c \<noteq> CHR ''T'') ts
         in case find (\<lambda>s. studentId s = sid \<and> status s = ''active'') (students d) of
              None \<Rightarrow> (MealNotFound ''Student not found or inactive'', d)
            | Some st \<Rightarrow>
                (case find (\<lambda>m. m_studentId m = sid \<and> m_date m = mealDate) (meals d) of
                   Some existingMeal \<Rightarrow>
                     (MealAlready (''Meal already marked for '' @ name st @ '' today'')
                        existingMeal (name st, studentId st, sclass st), d)
                 | None \<Rightarrow>
                     (let mealRecord = \<lparr>m_id = (now_ms e, random_tag e),
                                         m_studentId = sid,
                                         m_studentName = name st,
                                         m_studentClass = sclass st,
                                         m_date = mealDate,
                                         m_timestamp = ts,
                                         m_status = ''served'',
                                         m_createdAt = now_iso e,
                                         m_ip = client_ip body,
                                         m_userAgent = or_else (user_agent body) ''Unknown''\<rparr>
                      in case statistics d of
                           None \<Rightarrow> (MealError ''Server error while marking meal'', d)
                         | Some stats \<Rightarrow>
                             (let d' = d\<lparr>meals := meals d @ [mealRecord],
                                         statistics :=
                                           Some (stats\<lparr>totalMealsServed :=
                                                          bump (totalMealsServed stats),
                                                        lastUpdated := Some (now_iso e)\<rparr>)\<rparr>
                              in if write_ok e
                                 then (MealServed (''Nutritious meal served to '' @ name st @ ''!'')
                                         mealRecord (name st, studentId st, sclass st), d')
                                 else (MealError ''Failed to save meal record'', d)))))
      else (MealRejected ''Student ID and timestamp are required'', d))"

subsection \<open>Runs of the server\<close>

text \<open>
  A run is a list of requests handled in order. Besides the two ledger requests there is
  every other write of the repository (the registration route, an administrative change
  of the settings): it replaces students, settings and statistics and leaves both ledgers
  alone.
\<close>

datatype request =
    AttendanceMark env mark_body
  | MealMark env meal_body
  | OtherWrite "student list" "settings option" "statistics option"

fun handle :: "db \<Rightarrow> request \<Rightarrow> db" where
  "handle d (AttendanceMark e body) = snd (mark e body d)"
| "handle d (MealMark e body) = snd (mark_meal e body d)"
| "handle d (OtherWrite sts se stt) = d\<lparr>students := sts, settings := se, statistics := stt\<rparr>"

definition run :: "db \<Rightarrow> request list \<Rightarrow> db" where
  "run d reqs = foldl handle d reqs"

section \<open>Notions of the specification\<close>

text \<open>
  These definitions are not code of the repository; they say what the specification's
  sentences speak about, so that the code can be compared with them.

  The pairs the Matcher considers: for every student with status \<open>active\<close>, in list
  order, every descriptor of its descriptor set (none when the set is absent), in order,
  with its distance to the probe. \<open>spec_step\<close> is the rule of the specification: a pair
  becomes the current best only if its distance is strictly below both the threshold and
  the best distance so far. \<open>report\<close> turns the best pair into the Matcher's result.
\<close>

definition descriptor_set :: "student \<Rightarrow> descriptor list" where
  "descriptor_set st =
     (case faceData st of
        None \<Rightarrow> []
      | Some fd \<Rightarrow> (case descriptors fd of None \<Rightarrow> [] | Some ds \<Rightarrow> ds))"

definition considered_pairs :: "descriptor \<Rightarrow> student list \<Rightarrow> (student \<times> jsnum) list" where
  "considered_pairs inp sts =
     concat (map (\<lambda>st. map (\<lambda>d. (st, euclideanDistance inp d)) (descriptor_set st))
                 (filter (\<lambda>st. status st = ''active'') sts))"

fun spec_step ::
  "jsnum \<Rightarrow> (student \<times> jsnum) option \<Rightarrow> student \<times> jsnum \<Rightarrow> (student \<times> jsnum) option" where
  "spec_step thr best (st, d) =
     (if js_lt d thr \<and> (case best of None \<Rightarrow> True | Some (bs, bd) \<Rightarrow> js_lt d bd)
      then Some (st, d) else best)"

definition report :: "(student \<times> jsnum) option \<Rightarrow> best" where
  "report b =
     (case b of
        None \<Rightarrow> (None, None)
      | Some (st, d) \<Rightarrow>
          (Some \<lparr>distance = d, confidence = js_round (js_mul (js_sub (Fin 1) d) (Fin 100))\<rparr>,
           Some st))"

text \<open>
  A time of day is a pair of hours and minutes; \<open>hhmm\<close> writes it as \<open>HH:MM\<close>. A slot
  configuration lists, in declaration order, each slot's key, start, end and name;
  \<open>slot_table\<close> writes it as the table the resolver walks, and \<open>first_slot\<close> is the
  specification's answer: the first slot whose closed interval holds the time.
\<close>

type_synonym tod = "nat \<times> nat"

definition hhmm :: "tod \<Rightarrow> string" where
  "hhmm t = pad2 (fst t) @ '':'' @ pad2 (snd t)"

definition tod_le :: "tod \<Rightarrow> tod \<Rightarrow> bool" where
  "tod_le a b = (fst a * 60 + snd a \<le> fst b * 60 + snd b)"

definition tod_ok :: "tod \<Rightarrow> bool" where
  "tod_ok t = (fst t < 24 \<and> snd t < 60)"

type_synonym slot_config = "(string \<times> tod \<times> tod \<times> string) list"

definition slot_table :: "slot_config \<Rightarrow> (string \<times> slot) list" where
  "slot_table cfg =
     map (\<lambda>(key, s, e, nm). (key, \<lparr>slot_start = hhmm s, slot_end = hhmm e, slot_name = nm\<rparr>)) cfg"

definition default_config :: slot_config where
  "default_config =
     [(''morning'', (8, 0), (12, 0), ''Morning Session''),
      (''meal'', (12, 0), (13, 0), ''Mid-Day Meal''),
      (''afternoon'', (13, 0), (17, 0), ''Afternoon Session'')]"

definition first_slot :: "tod \<Rightarrow> slot_config \<Rightarrow> time_slot" where
  "first_slot t cfg =
     (case find (\<lambda>(key, s, e, nm). tod_le s t \<and> tod_le t e) cfg of
        None \<Rightarrow> \<lparr>ts_type = ''none'', ts_name = ''No Active Session'', ts_active = False\<rparr>
      | Some (key, s, e, nm) \<Rightarrow> \<lparr>ts_type = key, ts_name = nm, ts_active = True\<rparr>)"

text \<open>
  The deduplication keys of the two ledgers, and the number of records a ledger holds
  under a key.
\<close>

definition att_key :: "attendance_record \<Rightarrow> string \<times> string \<times> string" where
  "att_key a = (a_studentId a, a_date a, a_session a)"

definition meal_key :: "meal_record \<Rightarrow> string \<times> string" where
  "meal_key m = (m_studentId m, m_date m)"

section \<open>Example data\<close>

text \<open>
  Concrete inputs at which the theorems below are instantiated. Alice has three stored
  descriptors, the second one missing; Bob ties with Alice's third; Carol would be the
  exact match but is inactive. The probe of these small examples has one component.
\<close>

definition alice :: student where
  "alice = \<lparr>studentId = ''S001'', name = ''Alice'', sclass = ''5'', status = ''active'',
             faceData = Some \<lparr>descriptors = Some [Some [ENum 2], None, Some [ENum 1]]\<rparr>\<rparr>"

definition bob :: student where
  "bob = \<lparr>studentId = ''S002'', name = ''Bob'', sclass = ''5'', status = ''active'',
           faceData = Some \<lparr>descriptors = Some [Some [ENum 1]]\<rparr>\<rparr>"

definition carol :: student where
  "carol = \<lparr>studentId = ''S003'', name = ''Carol'', sclass = ''6'', status = ''inactive'',
             faceData = Some \<lparr>descriptors = Some [Some [ENum 0]]\<rparr>\<rparr>"

definition roster :: "student list" where
  "roster = [carol, alice, bob]"

definition probe1 :: descriptor where
  "probe1 = Some [ENum 0]"

text \<open>
  A school with one enrolled student, Dana, whose stored descriptor is the 128-component
  zero vector; the threshold is the initial database's \<open>0.5\<close>. The clocks stand at
  09:15 and at 23:00 (outside every slot).
\<close>

definition zeros :: "elem list" where
  "zeros = replicate 128 (ENum 0)"

definition dana :: student where
  "dana = \<lparr>studentId = ''S004'', name = ''Dana'', sclass = ''7'', status = ''active'',
            faceData = Some \<lparr>descriptors = Some [Some zeros]\<rparr>\<rparr>"

definition school :: db where
  "school = \<lparr>students = [dana], attendance = [], meals = [],
              settings = Some \<lparr>recognitionThreshold = Some (Fin (1 / 2))\<rparr>,
              statistics = Some \<lparr>totalAttendance = None, totalMealsServed = Some 0,
                                  lastUpdated = Some ''2025-03-10T03:00:00.000Z''\<rparr>\<rparr>"

definition morning_env :: env where
  "morning_env = \<lparr>now = \<lparr>hours = 9, minutes = 15, seconds = 2, zone = ''GMT+0000 (UTC)''\<rparr>,
                   now_ms = 1741598102000, now_iso = ''2025-03-10T09:15:02.000Z'',
                   random_tag = ''k3x9qa'', write_ok = True\<rparr>"

definition night_env :: env where
  "night_env = \<lparr>now = \<lparr>hours = 23, minutes = 0, seconds = 40, zone = ''GMT+0000 (UTC)''\<rparr>,
                 now_ms = 1741647640000, now_iso = ''2025-03-10T23:00:40.000Z'',
                 random_tag = ''p0w2zz'', write_ok = True\<rparr>"

definition scan :: "string \<Rightarrow> string option \<Rightarrow> string option \<Rightarrow> mark_body" where
  "scan ts se sty = \<lparr>faceDescriptor = FArr zeros, timestamp = Some ts, session = se,
                     sessionType = sty\<rparr>"

text \<open>
  Erin's stored descriptor differs from the zero vector in its first component only, at
  distance 2; her school has set the recognition threshold to 3. The last request carries
  128 \<open>null\<close>s, which is what \<open>JSON.stringify\<close> makes of a vector of \<open>NaN\<close>s.
\<close>

definition two_then_zeros :: "elem list" where
  "two_then_zeros = ENum 2 # replicate 127 (ENum 0)"

definition erin :: student where
  "erin = \<lparr>studentId = ''S005'', name = ''Erin'', sclass = ''3'', status = ''active'',
            faceData = Some \<lparr>descriptors = Some [Some two_then_zeros]\<rparr>\<rparr>"

definition loose_school :: db where
  "loose_school = \<lparr>students = [erin], attendance = [], meals = [],
                    settings = Some \<lparr>recognitionThreshold = Some (Fin 3)\<rparr>,
                    statistics = None\<rparr>"

definition null_scan :: mark_body where
  "null_scan = \<lparr>faceDescriptor = FArr (replicate 128 ENull),
                 timestamp = Some ''2025-03-10T09:15:00.000Z'',
                 session = Some ''Morning Session'', sessionType = Some ''morning''\<rparr>"

definition lunch :: "string \<Rightarrow> meal_body" where
  "lunch ts = \<lparr>meal_studentId = Some ''S004'', meal_timestamp = Some ts,
                client_ip = ''::1'', user_agent = None\<rparr>"

text \<open>
  A configuration whose morning slot runs from 09:00 to 10:00: at 08:30 no slot of it
  holds the time.
\<close>

definition late_config :: slot_config where
  "late_config =
     [(''morning'', (9, 0), (10, 0), ''Morning Session''),
      (''meal'', (12, 0), (13, 0), ''Mid-Day Meal''),
      (''afternoon'', (13, 0), (17, 0), ''Afternoon Session'')]"

section \<open>Order of JavaScript numbers\<close>

lemma js_lt_irrefl: "\<not> js_lt a a"
  by (cases a) auto

lemma js_lt_trans: "js_lt a b \<Longrightarrow> js_lt b c \<Longrightarrow> js_lt a c"
  by (cases a; cases b; cases c) auto

lemma js_lt_le_trans: "js_lt a b \<Longrightarrow> js_le b c \<Longrightarrow> js_lt a c"
  by (cases a; cases b; cases c) auto

lemma js_lt_imp_le: "js_lt a b \<Longrightarrow> js_le a b"
  by (cases a; cases b) auto

lemma js_le_refl: "js_lt a t \<Longrightarrow> js_le a a"
  by (cases a; cases t) auto

lemma js_not_lt_le: "\<not> js_lt a b \<Longrightarrow> js_lt a t \<Longrightarrow> js_lt b u \<Longrightarrow> js_le b a"
  by (cases a; cases b; cases t; cases u) auto

lemma js_lt_PosInf: "\<not> js_lt PosInf a"
  by (cases a) auto

section \<open>The Matcher's loops compute the specification's fold\<close>

lemma descriptor_loop_foldl:
  "descriptor_loop inp thr st ds (report b) =
     report (foldl (spec_step thr) b (map (\<lambda>d. (st, euclideanDistance inp d)) ds))"
proof (induction ds arbitrary: b)
  case Nil
  show ?case by (cases "report b") simp
next
  case (Cons d ds)
  let ?dist = "euclideanDistance inp d"
  have step: "(if js_lt ?dist thr \<and>
               (case fst (report b) of None \<Rightarrow> True | Some m \<Rightarrow> js_lt ?dist (distance m))
            then (Some \<lparr>distance = ?dist,
                         confidence = js_round (js_mul (js_sub (Fin 1) ?dist) (Fin 100))\<rparr>,
                  Some st)
            else report b) = report (spec_step thr b (st, ?dist))"
    by (auto simp: report_def split: option.splits)
  obtain bm ms where r: "report b = (bm, ms)" by (cases "report b")
  have "descriptor_loop inp thr st (d # ds) (bm, ms) =
        descriptor_loop inp thr st ds (report (spec_step thr b (st, ?dist)))"
    unfolding descriptor_loop.simps Let_def step [unfolded r fst_conv] ..
  then show ?case using Cons.IH by (simp add: r)
qed

lemma student_loop_foldl:
  "student_loop inp thr sts (report b) =
     report (foldl (spec_step thr) b (considered_pairs inp sts))"
proof (induction sts arbitrary: b)
  case Nil
  show ?case by (simp add: considered_pairs_def)
next
  case (Cons st sts)
  show ?case
  proof (cases "candidate_descriptors st")
    case None
    then have "map (\<lambda>d. (st, euclideanDistance inp d)) (descriptor_set st) = [] \<or>
        status st \<noteq> ''active''"
      by (auto simp: descriptor_set_def split: option.splits if_splits)
    then have "considered_pairs inp (st # sts) = considered_pairs inp sts"
      by (auto simp: considered_pairs_def)
    then show ?thesis using None Cons.IH by simp
  next
    case (Some ds)
    then have "status st = ''active''" and "descriptor_set st = ds"
      by (auto simp: descriptor_set_def split: option.splits if_splits)
    then have "considered_pairs inp (st # sts) =
        map (\<lambda>d. (st, euclideanDistance inp d)) ds @ considered_pairs inp sts"
      by (simp add: considered_pairs_def)
    then show ?thesis
      using Some Cons.IH by (simp add: descriptor_loop_foldl del: candidate_descriptors.simps)
  qed
qed

lemma findBestMatch_foldl:
  "findBestMatch inp sts (Some thr) =
     report (foldl (spec_step thr) None (considered_pairs inp sts))"
  using student_loop_foldl [of inp thr sts None] by (simp add: findBestMatch_def report_def)

lemma spec_best_none:
  "(foldl (spec_step thr) None ps = None) = list_all (\<lambda>p. \<not> js_lt (snd p) thr) ps"
proof (induction ps rule: rev_induct)
  case Nil
  show ?case by simp
next
  case (snoc p ps)
  obtain st d where p: "p = (st, d)" by (cases p)
  show ?case using snoc by (auto simp: p split: option.splits)
qed

lemma spec_best_some:
  "foldl (spec_step thr) None ps = Some (st, d) \<Longrightarrow>
     js_lt d thr \<and>
     (\<exists>pre post. ps = pre @ (st, d) # post \<and>
        list_all (\<lambda>p. js_lt (snd p) thr \<longrightarrow> js_lt d (snd p)) pre \<and>
        list_all (\<lambda>p. js_lt (snd p) thr \<longrightarrow> js_le d (snd p)) post)"
proof (induction ps arbitrary: st d rule: rev_induct)
  case Nil
  then show ?case by simp
next
  case (snoc p ps)
  obtain st' d' where p: "p = (st', d')" by (cases p)
  let ?b = "foldl (spec_step thr) None ps"
  show ?case
  proof (cases "js_lt d' thr \<and> (case ?b of None \<Rightarrow> True | Some (bs, bd) \<Rightarrow> js_lt d' bd)")
    case True
    then have new: "st = st'" "d = d'" using snoc.prems by (auto simp: p)
    have below: "js_lt d' thr" using True by simp
    have "list_all (\<lambda>q. js_lt (snd q) thr \<longrightarrow> js_lt d' (snd q)) ps"
    proof (cases ?b)
      case None
      then have "list_all (\<lambda>p. \<not> js_lt (snd p) thr) ps" by (simp add: spec_best_none)
      then show ?thesis by (simp add: list_all_iff)
    next
      case (Some b)
      obtain bs bd where b: "b = (bs, bd)" by (cases b)
      have lt: "js_lt d' bd" using True Some b by simp
      from snoc.IH [of bs bd] Some b obtain pre post where
        ps: "ps = pre @ (bs, bd) # post" and
        pre: "list_all (\<lambda>p. js_lt (snd p) thr \<longrightarrow> js_lt bd (snd p)) pre" and
        post: "list_all (\<lambda>p. js_lt (snd p) thr \<longrightarrow> js_le bd (snd p)) post"
        by auto
      show ?thesis
        using pre post lt
        by (auto simp: ps list_all_iff intro: js_lt_trans js_lt_le_trans)
    qed
    then have "ps @ [p] = ps @ (st, d) # [] \<and>
        list_all (\<lambda>q. js_lt (snd q) thr \<longrightarrow> js_lt d (snd q)) ps \<and>
        list_all (\<lambda>q. js_lt (snd q) thr \<longrightarrow> js_le d (snd q)) []"
      by (simp add: new p)
    then show ?thesis using below new by blast
  next
    case False
    then have same: "?b = Some (st, d)" using snoc.prems by (auto simp: p)
    from snoc.IH [OF same] obtain pre post where
      below: "js_lt d thr" and
      ps: "ps = pre @ (st, d) # post" and
      pre: "list_all (\<lambda>p. js_lt (snd p) thr \<longrightarrow> js_lt d (snd p)) pre" and
      post: "list_all (\<lambda>p. js_lt (snd p) thr \<longrightarrow> js_le d (snd p)) post"
      by auto
    have "js_lt d' thr \<longrightarrow> js_le d d'"
      using False same below by (auto intro: js_not_lt_le)
    then have "ps @ [p] = pre @ (st, d) # (post @ [p]) \<and>
        list_all (\<lambda>p. js_lt (snd p) thr \<longrightarrow> js_lt d (snd p)) pre \<and>
        list_all (\<lambda>p. js_lt (snd p) thr \<longrightarrow> js_le d (snd p)) (post @ [p])"
      using ps pre post by (simp add: p)
    then show ?thesis using below by blast
  qed
qed

lemma report_None: "(report b = (None, None)) = (b = None)"
  by (auto simp: report_def split: option.splits)

lemma report_Some: "(report b = (Some m, Some st)) =
   (b = Some (st, distance m) \<and>
    confidence m = js_round (js_mul (js_sub (Fin 1) (distance m)) (Fin 100)))"
  by (cases m) (auto simp: report_def split: option.splits)

lemma report_paired: "(fst (report b) = None) = (snd (report b) = None)"
  by (auto simp: report_def split: option.splits)

lemma findBestMatch_paired:
  "(fst (findBestMatch inp sts thr) = None) = (snd (findBestMatch inp sts thr) = None)"
proof (cases thr)
  case None
  have "findBestMatch inp sts None = findBestMatch inp sts (Some (Fin (6 / 10)))"
    by (simp add: findBestMatch_def)
  then show ?thesis using None by (simp add: findBestMatch_foldl report_paired)
next
  case (Some t)
  then show ?thesis by (simp add: findBestMatch_foldl report_paired)
qed

lemma findBestMatch_below:
  assumes "findBestMatch inp sts (Some thr) = (Some m, Some st)"
  shows "js_lt (distance m) thr"
  using assms spec_best_some [of thr "considered_pairs inp sts" st "distance m"]
  by (simp add: findBestMatch_foldl report_Some)

lemma roster_pairs:
  "considered_pairs probe1 roster = [(alice, Fin 2), (alice, PosInf), (alice, Fin 1), (bob, Fin 1)]"
proof -
  have s: "sqrt 4 = 2" by simp
  have a: "status alice = ''active''" "status bob = ''active''" "status carol = ''inactive''"
    by (simp_all add: alice_def bob_def carol_def)
  have d: "descriptor_set alice = [Some [ENum 2], None, Some [ENum 1]]"
       "descriptor_set bob = [Some [ENum 1]]"
    by (simp_all add: descriptor_set_def alice_def bob_def)
  have e: "euclideanDistance probe1 (Some [ENum 2]) = Fin 2"
       "euclideanDistance probe1 None = PosInf"
       "euclideanDistance probe1 (Some [ENum 1]) = Fin 1"
    by (simp_all add: euclideanDistance_def probe1_def js_sub_def s)
  show ?thesis by (simp add: considered_pairs_def roster_def a d e)
qed

lemma round_zero: "js_round (js_mul (js_sub (Fin 1) (Fin 1)) (Fin 100)) = Fin 0"
  by (simp add: js_sub_def)

lemma roster_match_3:
  "findBestMatch probe1 roster (Some (Fin 3)) = (Some \<lparr>distance = Fin 1, confidence = Fin 0\<rparr>, Some alice)"
  by (simp add: findBestMatch_foldl roster_pairs report_def round_zero)

lemma roster_match_low:
  "findBestMatch probe1 roster (Some (Fin (3 / 2))) =
     (Some \<lparr>distance = Fin 1, confidence = Fin 0\<rparr>, Some alice)"
  by (simp add: findBestMatch_foldl roster_pairs report_def round_zero)

text \<open>
  C1. For every probe, candidate list and threshold: \<open>findBestMatch\<close> scans exactly the
  pairs of the active candidates that have a descriptor set, in list order, replacing the
  current best only by a pair strictly below both the threshold and the best so far; it
  returns no match exactly when no pair is below the threshold; and a returned match is
  below the threshold, strictly closer than every pair below the threshold before it and
  at least as close as every such pair after it (ties keep the first seen). Both parts of
  the result are null together.
\<close>

theorem findBestMatch_first_minimum:
  "findBestMatch inp sts (Some thr) =
     report (foldl (spec_step thr) None (considered_pairs inp sts)) \<and>
   (findBestMatch inp sts (Some thr) = (None, None)) =
     list_all (\<lambda>p. \<not> js_lt (snd p) thr) (considered_pairs inp sts) \<and>
   (\<forall>m st. findBestMatch inp sts (Some thr) = (Some m, Some st) \<longrightarrow>
      js_lt (distance m) thr \<and>
      (\<exists>pre post. considered_pairs inp sts = pre @ (st, distance m) # post \<and>
         list_all (\<lambda>p. js_lt (snd p) thr \<longrightarrow> js_lt (distance m) (snd p)) pre \<and>
         list_all (\<lambda>p. js_lt (snd p) thr \<longrightarrow> js_le (distance m) (snd p)) post)) \<and>
   (fst (findBestMatch inp sts (Some thr)) = None) =
     (snd (findBestMatch inp sts (Some thr)) = None)"
proof -
  let ?ps = "considered_pairs inp sts"
  have 1: "findBestMatch inp sts (Some thr) = report (foldl (spec_step thr) None ?ps)"
    by (rule findBestMatch_foldl)
  have 2: "(findBestMatch inp sts (Some thr) = (None, None)) =
      list_all (\<lambda>p. \<not> js_lt (snd p) thr) ?ps"
    by (simp add: 1 report_None spec_best_none)
  have 3: "js_lt (distance m) thr \<and>
      (\<exists>pre post. ?ps = pre @ (st, distance m) # post \<and>
         list_all (\<lambda>p. js_lt (snd p) thr \<longrightarrow> js_lt (distance m) (snd p)) pre \<and>
         list_all (\<lambda>p. js_lt (snd p) thr \<longrightarrow> js_le (distance m) (snd p)) post)"
    if "findBestMatch inp sts (Some thr) = (Some m, Some st)" for m st
    using that spec_best_some [of thr ?ps st "distance m"] by (simp add: 1 report_Some)
  have 4: "(fst (findBestMatch inp sts (Some thr)) = None) =
      (snd (findBestMatch inp sts (Some thr)) = None)"
    by (rule findBestMatch_paired)
  from 1 2 3 4 show ?thesis by blast
qed

theorem findBestMatch_first_minimum_witness:
  "findBestMatch probe1 roster (Some (Fin 3)) =
     (Some \<lparr>distance = Fin 1, confidence = Fin 0\<rparr>, Some alice) \<and>
   (\<exists>pre post.
      considered_pairs probe1 roster = pre @ (alice, Fin 1) # post \<and>
      list_all (\<lambda>p. js_lt (snd p) (Fin 3) \<longrightarrow> js_lt (Fin 1) (snd p)) pre \<and>
      list_all (\<lambda>p. js_lt (snd p) (Fin 3) \<longrightarrow> js_le (Fin 1) (snd p)) post) \<and>
   considered_pairs probe1 roster =
     [(alice, Fin 2), (alice, PosInf), (alice, Fin 1), (bob, Fin 1)]"
  using findBestMatch_first_minimum [of probe1 roster "Fin 3"] roster_match_3 roster_pairs
  by simp

text \<open>
  C7. Threshold monotonicity: a match at threshold \<open>T\<close> is still a match at every
  threshold \<open>T' > T\<close>, and the match found there is at least as close.
\<close>

theorem findBestMatch_threshold_monotone:
  assumes "findBestMatch inp sts (Some T) = (Some m, Some st)"
    and "js_lt T T'"
  shows "\<exists>m' st'. findBestMatch inp sts (Some T') = (Some m', Some st') \<and>
           js_le (distance m') (distance m)"
proof -
  let ?ps = "considered_pairs inp sts"
  let ?d = "distance m"
  from assms(1) have b: "foldl (spec_step T) None ?ps = Some (st, ?d)"
    by (simp add: findBestMatch_foldl report_Some)
  from spec_best_some [OF b] have below: "js_lt ?d T" and mem: "(st, ?d) \<in> set ?ps"
    by auto
  have below': "js_lt ?d T'" using below assms(2) by (rule js_lt_trans)
  have "\<not> list_all (\<lambda>p. \<not> js_lt (snd p) T') ?ps"
    using mem below' by (force simp: list_all_iff)
  then obtain st' d' where b': "foldl (spec_step T') None ?ps = Some (st', d')"
    using spec_best_none [of T' ?ps] by (cases "foldl (spec_step T') None ?ps") auto
  from spec_best_some [OF b'] obtain pre post where
    lt': "js_lt d' T'" and
    ps: "?ps = pre @ (st', d') # post" and
    pre: "list_all (\<lambda>p. js_lt (snd p) T' \<longrightarrow> js_lt d' (snd p)) pre" and
    post: "list_all (\<lambda>p. js_lt (snd p) T' \<longrightarrow> js_le d' (snd p)) post"
    by auto
  from mem ps have "(st, ?d) \<in> set pre \<or> (st, ?d) = (st', d') \<or> (st, ?d) \<in> set post"
    by auto
  then have le: "js_le d' ?d"
  proof (elim disjE)
    assume "(st, ?d) \<in> set pre"
    then have "js_lt d' ?d" using pre below' by (auto simp: list_all_iff)
    then show ?thesis by (rule js_lt_imp_le)
  next
    assume "(st, ?d) = (st', d')"
    then show ?thesis using lt' js_le_refl by auto
  next
    assume "(st, ?d) \<in> set post"
    then show ?thesis using post below' by (auto simp: list_all_iff)
  qed
  let ?m' = "\<lparr>distance = d', confidence = js_round (js_mul (js_sub (Fin 1) d') (Fin 100))\<rparr>"
  have "findBestMatch inp sts (Some T') = (Some ?m', Some st')"
    by (simp add: findBestMatch_foldl b' report_def)
  then show ?thesis using le by force
qed

theorem findBestMatch_threshold_monotone_witness:
  "findBestMatch probe1 roster (Some (Fin (3 / 2))) =
     (Some \<lparr>distance = Fin 1, confidence = Fin 0\<rparr>, Some alice) \<and>
   js_lt (Fin (3 / 2)) (Fin 3) \<and>
   (\<exists>m' st'. findBestMatch probe1 roster (Some (Fin 3)) = (Some m', Some st') \<and>
      js_le (distance m') (Fin 1))"
proof -
  have lt: "js_lt (Fin (3 / 2)) (Fin 3)" by simp
  from findBestMatch_threshold_monotone [OF roster_match_low lt]
  show ?thesis using roster_match_low lt by simp
qed

text \<open>
  C8 (amended). The distance function the Matcher calls (\<open>euclideanDistance\<close> of the
  attendance route) never fails: a missing input or two inputs of different lengths give
  \<open>Infinity\<close>, which is above every real number and below no threshold, and no match the
  Matcher returns has that distance. The distance function of \<open>FaceRecognitionUtils\<close>
  throws in the same cases.
\<close>

theorem euclideanDistance_sentinel:
  "euclideanDistance None b = PosInf \<and>
   euclideanDistance a None = PosInf \<and>
   (length d1 \<noteq> length d2 \<longrightarrow> euclideanDistance (Some d1) (Some d2) = PosInf) \<and>
   js_lt (Fin x) PosInf \<and>
   \<not> js_lt PosInf t \<and>
   (\<forall>m st. findBestMatch inp sts thr = (Some m, Some st) \<longrightarrow> distance m \<noteq> PosInf) \<and>
   utils_euclideanDistance None b = Inl JsTypeError \<and>
   utils_euclideanDistance (Some d1) None = Inl JsTypeError \<and>
   (length d1 \<noteq> length d2 \<longrightarrow>
      utils_euclideanDistance (Some d1) (Some d2) =
        Inl (JsError ''Descriptors must have the same length''))"
proof -
  have 1: "euclideanDistance None b = PosInf" "euclideanDistance a None = PosInf"
    by (simp_all add: euclideanDistance_def split: option.splits)
  have 2: "length d1 \<noteq> length d2 \<longrightarrow> euclideanDistance (Some d1) (Some d2) = PosInf"
    by (simp add: euclideanDistance_def)
  have 3: "distance m \<noteq> PosInf" if f: "findBestMatch inp sts thr = (Some m, Some st)" for m st
  proof -
    obtain t where "findBestMatch inp sts thr = findBestMatch inp sts (Some t)"
      by (cases thr) (auto simp: findBestMatch_def)
    with f have "js_lt (distance m) t" using findBestMatch_below by auto
    then show ?thesis using js_lt_PosInf by auto
  qed
  have 4: "utils_euclideanDistance None b = Inl JsTypeError"
    "utils_euclideanDistance (Some d1) None = Inl JsTypeError"
    "length d1 \<noteq> length d2 \<longrightarrow>
      utils_euclideanDistance (Some d1) (Some d2) =
        Inl (JsError ''Descriptors must have the same length'')"
    by (simp_all add: utils_euclideanDistance_def)
  from 1 2 3 4 js_lt_PosInf show ?thesis by simp
qed

theorem euclideanDistance_sentinel_witness:
  "length [ENum 1] \<noteq> length [ENum 1, ENum 2] \<and>
   euclideanDistance (Some [ENum 1]) (Some [ENum 1, ENum 2]) = PosInf \<and>
   euclideanDistance probe1 None = PosInf \<and>
   findBestMatch probe1 roster (Some (Fin 3)) =
     (Some \<lparr>distance = Fin 1, confidence = Fin 0\<rparr>, Some alice) \<and>
   distance \<lparr>distance = Fin 1, confidence = Fin 0\<rparr> \<noteq> PosInf"
  using euclideanDistance_sentinel [of None probe1 "[ENum 1]" "[ENum 1, ENum 2]" 0 NaN
      probe1 roster "Some (Fin 3)"] roster_match_3
  by simp

theorem utils_euclideanDistance_throws:
  "utils_euclideanDistance (Some [ENum 1]) (Some [ENum 1, ENum 2]) =
     Inl (JsError ''Descriptors must have the same length'')"
  by (simp add: utils_euclideanDistance_def)


section \<open>Times of day as strings\<close>

lemma lex_lt:
  "ra < k \<Longrightarrow> rb < k \<Longrightarrow>
   (qa < qb \<or> qa = qb \<and> ra < rb) = ((qa::nat) * k + ra < qb * k + rb)"
proof (cases qa qb rule: linorder_cases)
  case less
  then have "Suc qa \<le> qb" by simp
  then have "Suc qa * k \<le> qb * k" by (rule mult_le_mono1)
  moreover assume "ra < k" "rb < k"
  ultimately show ?thesis using less by simp
next
  case equal
  then show ?thesis by simp
next
  case greater
  then have "Suc qb \<le> qa" by simp
  then have "Suc qb * k \<le> qa * k" by (rule mult_le_mono1)
  moreover assume "ra < k" "rb < k"
  ultimately show ?thesis using greater by simp
qed

lemma two_digit_lt:
  "(a div 10 < b div 10 \<or> a div 10 = b div 10 \<and> a mod 10 < b mod 10) = ((a::nat) < b)"
  using lex_lt [of "a mod 10" 10 "b mod 10" "a div 10" "b div 10"] by simp

lemma of_char_digit: "n < 10 \<Longrightarrow> (of_char (digit n) :: nat) = 48 + n"
  by (simp add: digit_def)

lemma str_lt_digit:
  "a < 10 \<Longrightarrow> b < 10 \<Longrightarrow>
   str_lt (digit a # xs) (digit b # ys) = (a < b \<or> a = b \<and> str_lt xs ys)"
  by (auto simp: of_char_digit)

lemma str_lt_pad2:
  assumes "a < 100" "b < 100"
  shows "str_lt (pad2 a @ xs) (pad2 b @ ys) = (a < b \<or> a = b \<and> str_lt xs ys)"
proof -
  have d: "a div 10 < 10" "a mod 10 < 10" "b div 10 < 10" "b mod 10 < 10"
    using assms by simp_all
  have e: "(a div 10 = b div 10 \<and> a mod 10 = b mod 10) = (a = b)"
    by (metis div_mult_mod_eq)
  have "str_lt (pad2 a @ xs) (pad2 b @ ys) =
      (a div 10 < b div 10 \<or> a div 10 = b div 10 \<and>
        (a mod 10 < b mod 10 \<or> a mod 10 = b mod 10 \<and> str_lt xs ys))"
    by (simp add: pad2_def str_lt_digit d del: str_lt.simps)
  also have "\<dots> = ((a div 10 < b div 10 \<or> a div 10 = b div 10 \<and> a mod 10 < b mod 10) \<or>
        (a div 10 = b div 10 \<and> a mod 10 = b mod 10) \<and> str_lt xs ys)"
    by blast
  finally show ?thesis by (simp only: two_digit_lt e)
qed

lemma str_lt_hhmm:
  assumes "tod_ok a" "tod_ok b"
  shows "str_lt (hhmm a) (hhmm b) = (fst a * 60 + snd a < fst b * 60 + snd b)"
proof -
  have r: "fst a < 100" "snd a < 100" "fst b < 100" "snd b < 100" "snd a < 60" "snd b < 60"
    using assms by (simp_all add: tod_ok_def)
  have p: "str_lt (pad2 (snd a)) (pad2 (snd b)) = (snd a < snd b)"
    using str_lt_pad2 [of "snd a" "snd b" "[]" "[]"] r by simp
  have "str_lt (hhmm a) (hhmm b) = (fst a < fst b \<or> fst a = fst b \<and> snd a < snd b)"
    by (simp add: hhmm_def str_lt_pad2 r p)
  then show ?thesis using lex_lt [of "snd a" 60 "snd b" "fst a" "fst b"] r by simp
qed

lemma str_le_hhmm:
  "tod_ok a \<Longrightarrow> tod_ok b \<Longrightarrow> str_le (hhmm a) (hhmm b) = tod_le a b"
  by (auto simp: str_le_def str_lt_hhmm tod_le_def)

lemma str_ge_hhmm:
  "tod_ok a \<Longrightarrow> tod_ok b \<Longrightarrow> str_ge (hhmm a) (hhmm b) = tod_le b a"
  by (auto simp: str_ge_def str_lt_hhmm tod_le_def)

lemma take5_toTimeString: "take 5 (toTimeString d) = hhmm (hours d, minutes d)"
  by (simp add: toTimeString_def hhmm_def pad2_def)

section \<open>The resolver returns the first slot that holds the time\<close>

lemma slots_default: "slots = slot_table default_config"
  by code_simp

lemma default_config_ok: "list_all (\<lambda>(key, s, e, nm). tod_ok s \<and> tod_ok e) default_config"
  by (simp add: default_config_def tod_ok_def)

lemma slot_loop_first_slot:
  assumes "tod_ok t"
  shows "list_all (\<lambda>(key, s, e, nm). tod_ok s \<and> tod_ok e) cfg \<Longrightarrow>
         slot_loop (hhmm t) (slot_table cfg) = first_slot t cfg"
proof (induction cfg)
  case Nil
  show ?case by (simp add: slot_table_def first_slot_def)
next
  case (Cons c cfg)
  obtain key s e nm where c: "c = (key, s, e, nm)" by (cases c)
  from Cons.prems have ok: "tod_ok s" "tod_ok e" by (simp_all add: c)
  from Cons have ih: "slot_loop (hhmm t) (slot_table cfg) = first_slot t cfg" by simp
  have cond: "(str_ge (hhmm t) (hhmm s) \<and> str_le (hhmm t) (hhmm e)) = (tod_le s t \<and> tod_le t e)"
    using assms ok by (simp add: str_ge_hhmm str_le_hhmm)
  show ?case
  proof (cases "tod_le s t \<and> tod_le t e")
    case True
    then show ?thesis using cond by (simp add: c slot_table_def first_slot_def)
  next
    case False
    then have "first_slot t (c # cfg) = first_slot t cfg"
      by (auto simp: c first_slot_def)
    moreover have "slot_loop (hhmm t) (slot_table (c # cfg)) = slot_loop (hhmm t) (slot_table cfg)"
      using False cond by (auto simp: c slot_table_def)
    ultimately show ?thesis using ih by simp
  qed
qed

lemma getCurrentTimeSlot_default:
  "tod_ok (hours d, minutes d) \<Longrightarrow>
   getCurrentTimeSlot d = first_slot (hours d, minutes d) default_config"
  using slot_loop_first_slot [OF _ default_config_ok, of "(hours d, minutes d)"]
  by (simp add: getCurrentTimeSlot_def take5_toTimeString slots_default)

lemma first_slot_first:
  assumes "tod_le s t" "tod_le t e"
    and "list_all (\<lambda>(key', s', e', nm'). \<not> (tod_le s' t \<and> tod_le t e')) pre"
  shows "first_slot t (pre @ (key, s, e, nm) # post) =
           \<lparr>ts_type = key, ts_name = nm, ts_active = True\<rparr>"
proof -
  have "find (\<lambda>(key, s, e, nm). tod_le s t \<and> tod_le t e) (pre @ (key, s, e, nm) # post) =
      Some (key, s, e, nm)"
    using assms by (induction pre) auto
  then show ?thesis by (simp add: first_slot_def)
qed

lemma first_slot_none:
  assumes "list_all (\<lambda>(key, s, e, nm). \<not> (tod_le s t \<and> tod_le t e)) cfg"
  shows "first_slot t cfg =
           \<lparr>ts_type = ''none'', ts_name = ''No Active Session'', ts_active = False\<rparr>"
proof -
  have "find (\<lambda>(key, s, e, nm). tod_le s t \<and> tod_le t e) cfg = None"
    using assms by (induction cfg) auto
  then show ?thesis by (simp add: first_slot_def)
qed

lemma first_slot_default:
  "first_slot (h, m) default_config =
     (if 8 * 60 \<le> h * 60 + m \<and> h * 60 + m \<le> 12 * 60
      then \<lparr>ts_type = ''morning'', ts_name = ''Morning Session'', ts_active = True\<rparr>
      else if 12 * 60 \<le> h * 60 + m \<and> h * 60 + m \<le> 13 * 60
      then \<lparr>ts_type = ''meal'', ts_name = ''Mid-Day Meal'', ts_active = True\<rparr>
      else if 13 * 60 \<le> h * 60 + m \<and> h * 60 + m \<le> 17 * 60
      then \<lparr>ts_type = ''afternoon'', ts_name = ''Afternoon Session'', ts_active = True\<rparr>
      else \<lparr>ts_type = ''none'', ts_name = ''No Active Session'', ts_active = False\<rparr>)"
  by (simp add: first_slot_def default_config_def tod_le_def)

text \<open>
  C4 (amended). At 08:00, 11:59, 12:00, 12:30, 13:00, 13:01, 17:00 and 23:00 the resolver
  answers morning, morning, morning, meal, meal, afternoon, afternoon and none: 12:00 is
  the closed end of the morning slot, which is declared before the meal slot.
\<close>

theorem session_partition:
  "map (\<lambda>t. ts_type (getCurrentTimeSlot \<lparr>hours = fst t, minutes = snd t, seconds = s, zone = z\<rparr>))
     [(8, 0), (11, 59), (12, 0), (12, 30), (13, 0), (13, 1), (17, 0), (23, 0)] =
   [''morning'', ''morning'', ''morning'', ''meal'', ''meal'', ''afternoon'', ''afternoon'',
    ''none'']"
  by (simp add: getCurrentTimeSlot_default tod_ok_def first_slot_default)

theorem session_at_noon_is_morning:
  "ts_type (getCurrentTimeSlot \<lparr>hours = 12, minutes = 0, seconds = 0,
      zone = ''GMT+0530 (India Standard Time)''\<rparr>) = ''morning'' \<and>
   ts_type (getCurrentTimeSlot \<lparr>hours = 12, minutes = 0, seconds = 0,
      zone = ''GMT+0530 (India Standard Time)''\<rparr>) \<noteq> ''meal''"
  by (simp add: getCurrentTimeSlot_default tod_ok_def first_slot_default)

text \<open>
  C5 (amended). For every wall-clock time, \<open>getCurrentTimeSlot\<close> returns the first slot
  of its own table (morning 08:00-12:00, meal 12:00-13:00, afternoon 13:00-17:00, in that
  declaration order) whose closed interval from start to end holds the time of day, and
  the no-session answer when none does; a time equal to a slot's start or end is inside
  a slot. The table is a constant of the function: it takes no configuration, and the
  slot boundaries kept in the settings are not read.
\<close>

theorem getCurrentTimeSlot_fixed_table:
  assumes "tod_ok (hours d, minutes d)"
  shows "getCurrentTimeSlot d = first_slot (hours d, minutes d) default_config \<and>
         default_config =
           [(''morning'', (8, 0), (12, 0), ''Morning Session''),
            (''meal'', (12, 0), (13, 0), ''Mid-Day Meal''),
            (''afternoon'', (13, 0), (17, 0), ''Afternoon Session'')] \<and>
         (\<forall>pre key s e nm post.
            default_config = pre @ (key, s, e, nm) # post \<and>
            tod_le s (hours d, minutes d) \<and> tod_le (hours d, minutes d) e \<and>
            list_all (\<lambda>(key', s', e', nm').
               \<not> (tod_le s' (hours d, minutes d) \<and> tod_le (hours d, minutes d) e')) pre \<longrightarrow>
            getCurrentTimeSlot d = \<lparr>ts_type = key, ts_name = nm, ts_active = True\<rparr>) \<and>
         (list_all (\<lambda>(key, s, e, nm).
             \<not> (tod_le s (hours d, minutes d) \<and> tod_le (hours d, minutes d) e))
            default_config \<longrightarrow>
          getCurrentTimeSlot d =
            \<lparr>ts_type = ''none'', ts_name = ''No Active Session'', ts_active = False\<rparr>) \<and>
         (\<forall>key s e nm.
            (key, s, e, nm) \<in> set default_config \<and>
            ((hours d, minutes d) = s \<or> (hours d, minutes d) = e) \<longrightarrow>
            ts_active (getCurrentTimeSlot d))"
proof -
  let ?t = "(hours d, minutes d)"
  have 1: "getCurrentTimeSlot d = first_slot ?t default_config"
    using assms by (rule getCurrentTimeSlot_default)
  have 2: "default_config =
           [(''morning'', (8, 0), (12, 0), ''Morning Session''),
            (''meal'', (12, 0), (13, 0), ''Mid-Day Meal''),
            (''afternoon'', (13, 0), (17, 0), ''Afternoon Session'')]"
    by (simp add: default_config_def)
  have 3: "getCurrentTimeSlot d = \<lparr>ts_type = key, ts_name = nm, ts_active = True\<rparr>"
    if "default_config = pre @ (key, s, e, nm) # post \<and>
        tod_le s ?t \<and> tod_le ?t e \<and>
        list_all (\<lambda>(key', s', e', nm'). \<not> (tod_le s' ?t \<and> tod_le ?t e')) pre"
    for pre key s e nm post
    using that first_slot_first [of s ?t e pre key nm post] by (simp add: 1)
  have 4: "list_all (\<lambda>(key, s, e, nm). \<not> (tod_le s ?t \<and> tod_le ?t e)) default_config \<longrightarrow>
      getCurrentTimeSlot d =
        \<lparr>ts_type = ''none'', ts_name = ''No Active Session'', ts_active = False\<rparr>"
    using first_slot_none [of ?t default_config] by (simp add: 1)
  have 5: "ts_active (getCurrentTimeSlot d)"
    if "(key, s, e, nm) \<in> set default_config \<and> (?t = s \<or> ?t = e)" for key s e nm
  proof -
    from that have "?t \<in> {(8, 0), (12, 0), (13, 0), (17, 0)}"
      by (auto simp: default_config_def)
    then have "ts_active (first_slot ?t default_config)"
      by (auto simp: first_slot_default)
    then show ?thesis by (simp add: 1)
  qed
  from 1 2 3 4 5 show ?thesis by blast
qed

theorem getCurrentTimeSlot_fixed_table_witness:
  "tod_ok (13, 0) \<and>
   default_config = [] @ (''morning'', (8, 0), (12, 0), ''Morning Session'') #
     [(''meal'', (12, 0), (13, 0), ''Mid-Day Meal''),
      (''afternoon'', (13, 0), (17, 0), ''Afternoon Session'')] \<and>
   tod_le (8, 0) (12, 0) \<and> tod_le (12, 0) (12, 0) \<and>
   getCurrentTimeSlot \<lparr>hours = 12, minutes = 0, seconds = 59, zone = ''GMT+0000 (UTC)''\<rparr> =
     \<lparr>ts_type = ''morning'', ts_name = ''Morning Session'', ts_active = True\<rparr> \<and>
   getCurrentTimeSlot \<lparr>hours = 13, minutes = 0, seconds = 25, zone = ''GMT+0000 (UTC)''\<rparr> =
     \<lparr>ts_type = ''meal'', ts_name = ''Mid-Day Meal'', ts_active = True\<rparr> \<and>
   getCurrentTimeSlot \<lparr>hours = 17, minutes = 1, seconds = 0, zone = ''GMT+0000 (UTC)''\<rparr> =
     \<lparr>ts_type = ''none'', ts_name = ''No Active Session'', ts_active = False\<rparr>"
proof -
  let ?noon = "\<lparr>hours = 12, minutes = 0, seconds = 59, zone = ''GMT+0000 (UTC)''\<rparr>"
  let ?one = "\<lparr>hours = 13, minutes = 0, seconds = 25, zone = ''GMT+0000 (UTC)''\<rparr>"
  let ?late = "\<lparr>hours = 17, minutes = 1, seconds = 0, zone = ''GMT+0000 (UTC)''\<rparr>"
  have ok: "tod_ok (hours ?noon, minutes ?noon)" "tod_ok (hours ?one, minutes ?one)"
      "tod_ok (hours ?late, minutes ?late)"
    by (simp_all add: tod_ok_def)
  have split: "default_config = [] @ (''morning'', (8, 0), (12, 0), ''Morning Session'') #
     [(''meal'', (12, 0), (13, 0), ''Mid-Day Meal''),
      (''afternoon'', (13, 0), (17, 0), ''Afternoon Session'')]"
    by (simp add: default_config_def)
  have inside: "tod_le (8, 0) (12, 0)" "tod_le (12, 0) (12, 0)"
    by (simp_all add: tod_le_def)
  have out: "list_all (\<lambda>(key, s, e, nm).
      \<not> (tod_le s (hours ?late, minutes ?late) \<and> tod_le (hours ?late, minutes ?late) e))
      default_config"
    by (simp add: default_config_def tod_le_def)
  from getCurrentTimeSlot_fixed_table [OF ok(1)] split inside
  have a: "getCurrentTimeSlot ?noon =
      \<lparr>ts_type = ''morning'', ts_name = ''Morning Session'', ts_active = True\<rparr>"
    by (simp add: first_slot_default)
  from getCurrentTimeSlot_fixed_table [OF ok(2)]
  have b: "getCurrentTimeSlot ?one =
      \<lparr>ts_type = ''meal'', ts_name = ''Mid-Day Meal'', ts_active = True\<rparr>"
    by (simp add: first_slot_default)
  from getCurrentTimeSlot_fixed_table [OF ok(3)] out
  have c: "getCurrentTimeSlot ?late =
      \<lparr>ts_type = ''none'', ts_name = ''No Active Session'', ts_active = False\<rparr>"
    by blast
  show ?thesis using split inside a b c by (simp add: tod_ok_def)
qed

theorem getCurrentTimeSlot_ignores_configuration:
  "tod_ok (8, 30) \<and>
   list_all (\<lambda>(key, s, e, nm). tod_ok s \<and> tod_ok e) late_config \<and>
   getCurrentTimeSlot \<lparr>hours = 8, minutes = 30, seconds = 0, zone = ''GMT+0000 (UTC)''\<rparr> =
     \<lparr>ts_type = ''morning'', ts_name = ''Morning Session'', ts_active = True\<rparr> \<and>
   first_slot (8, 30) late_config =
     \<lparr>ts_type = ''none'', ts_name = ''No Active Session'', ts_active = False\<rparr> \<and>
   getCurrentTimeSlot \<lparr>hours = 8, minutes = 30, seconds = 0, zone = ''GMT+0000 (UTC)''\<rparr> \<noteq>
     first_slot (8, 30) late_config"
proof -
  have a: "getCurrentTimeSlot \<lparr>hours = 8, minutes = 30, seconds = 0, zone = ''GMT+0000 (UTC)''\<rparr> =
     \<lparr>ts_type = ''morning'', ts_name = ''Morning Session'', ts_active = True\<rparr>"
    by (simp add: getCurrentTimeSlot_default tod_ok_def first_slot_default)
  have b: "first_slot (8, 30) late_config =
     \<lparr>ts_type = ''none'', ts_name = ''No Active Session'', ts_active = False\<rparr>"
    by (simp add: first_slot_def late_config_def tod_le_def)
  have c: "list_all (\<lambda>(key, s, e, nm). tod_ok s \<and> tod_ok e) late_config"
    by (simp add: late_config_def tod_ok_def)
  show ?thesis using c by (simp add: a b tod_ok_def)
qed

section \<open>Evaluating the comparator on long vectors\<close>

lemma sum_loop_replicate:
  "ToNumber x = Fin a \<Longrightarrow> ToNumber y = Fin b \<Longrightarrow>
   sum_loop (replicate n x) (replicate n y) (Fin s) = Fin (s + real n * ((a - b) * (a - b)))"
  by (induction n arbitrary: s) (simp_all add: js_sub_def algebra_simps)

lemma distance_zeros_self: "euclideanDistance (Some zeros) (Some zeros) = Fin 0"
  using sum_loop_replicate [of "ENum 0" 0 "ENum 0" 0 128 0]
  by (simp add: euclideanDistance_def zeros_def)

lemma round_hundred: "js_round (js_mul (js_sub (Fin 1) (Fin 0)) (Fin 100)) = Fin 100"
  by (simp add: js_sub_def)

lemma school_threshold: "threshold_of school = Fin (1 / 2)"
  by (simp add: threshold_of_def school_def)

lemma school_match:
  "findBestMatch (Some zeros) (students school) (Some (threshold_of school)) =
     (Some \<lparr>distance = Fin 0, confidence = Fin 100\<rparr>, Some dana)"
proof -
  have "considered_pairs (Some zeros) (students school) = [(dana, Fin 0)]"
    by (simp add: considered_pairs_def school_def dana_def descriptor_set_def
        distance_zeros_self)
  then show ?thesis
    by (simp add: findBestMatch_foldl school_threshold report_def round_hundred)
qed

lemma scan_valid: "ts \<noteq> [] \<Longrightarrow> validate_mark (scan ts se sty) = Inr (zeros, ts)"
  by (simp add: validate_mark_def scan_def zeros_def)

section \<open>The attendance ledger\<close>

lemma find_snoc_new:
  "find P xs = None \<Longrightarrow> P x \<Longrightarrow> find P (xs @ [x]) = Some x"
  by (induction xs) (auto split: if_splits)

lemma find_key_None:
  "(find (\<lambda>a. a_studentId a = i \<and> a_date a = dt \<and> a_session a = l) xs = None) =
     ((i, dt, l) \<notin> set (map att_key xs))"
  by (induction xs) (auto simp: att_key_def)

lemma mark_matched_new:
  assumes "(studentId st, take 10 ts, or_else (session b) (ts_name (getCurrentTimeSlot (now e))))
             \<notin> set (map att_key (attendance d))"
  shows "\<exists>rec stt.
     mark_matched e b ts (Some bm) st d =
       (Marked (name st) (studentId st)
          (or_else (session b) (ts_name (getCurrentTimeSlot (now e)))) ts (confidence bm),
        if write_ok e then d\<lparr>attendance := attendance d @ [rec], statistics := stt\<rparr> else d) \<and>
     att_key rec = (studentId st, take 10 ts,
        or_else (session b) (ts_name (getCurrentTimeSlot (now e)))) \<and>
     a_timestamp rec = ts \<and>
     a_sessionType rec = or_else (sessionType b) (ts_type (getCurrentTimeSlot (now e)))"
proof -
  let ?l = "or_else (session b) (ts_name (getCurrentTimeSlot (now e)))"
  have f: "find (\<lambda>a. a_studentId a = studentId st \<and> a_date a = take 10 ts \<and> a_session a = ?l)
      (attendance d) = None"
    using assms by (simp add: find_key_None)
  let ?rec = "\<lparr>a_id = now_ms e, a_studentId = studentId st, a_studentName = name st,
      a_studentClass = sclass st, a_timestamp = ts, a_date = take 10 ts, a_session = ?l,
      a_sessionType = or_else (sessionType b) (ts_type (getCurrentTimeSlot (now e))),
      a_status = ''present'', a_confidence = confidence bm, a_createdAt = now_iso e\<rparr>"
  let ?stats = "case statistics d of
      None \<Rightarrow> \<lparr>totalAttendance = None, totalMealsServed = None, lastUpdated = None\<rparr>
    | Some s \<Rightarrow> s"
  let ?stt = "Some (?stats\<lparr>totalAttendance := bump (totalAttendance ?stats)\<rparr>)"
  have "mark_matched e b ts (Some bm) st d =
       (Marked (name st) (studentId st) ?l ts (confidence bm),
        if write_ok e then d\<lparr>attendance := attendance d @ [?rec], statistics := ?stt\<rparr> else d)"
    unfolding mark_matched_def Let_def f by simp
  moreover have "att_key ?rec = (studentId st, take 10 ts, ?l)"
    by (simp add: att_key_def)
  moreover have "a_timestamp ?rec = ts"
    "a_sessionType ?rec = or_else (sessionType b) (ts_type (getCurrentTimeSlot (now e)))"
    by simp_all
  ultimately show ?thesis by blast
qed

lemma mark_matched_existing:
  assumes "find (\<lambda>a. a_studentId a = studentId st \<and> a_date a = take 10 ts \<and>
              a_session a = or_else (session b) (ts_name (getCurrentTimeSlot (now e))))
            (attendance d) = Some ex"
  shows "mark_matched e b ts bm st d =
     (AlreadyMarked (name st) (studentId st)
        (or_else (session b) (ts_name (getCurrentTimeSlot (now e)))) (a_timestamp ex), d)"
  unfolding mark_matched_def Let_def assms by simp

lemma mark_unfold:
  assumes "validate_mark b = Inr (arr, ts)"
    and "findBestMatch (Some arr) (students d) (Some (threshold_of d)) = (bm, Some st)"
  shows "mark e b d = mark_matched e b ts bm st d"
  using assms by (simp add: mark_def)

lemma mark_matched_frame:
  "students (snd (mark_matched e b ts bm st d)) = students d \<and>
   settings (snd (mark_matched e b ts bm st d)) = settings d \<and>
   meals (snd (mark_matched e b ts bm st d)) = meals d"
  by (simp add: mark_matched_def Let_def split: option.splits)

lemma mark_frame:
  "students (snd (mark e b d)) = students d \<and>
   settings (snd (mark e b d)) = settings d \<and>
   meals (snd (mark e b d)) = meals d"
  using mark_matched_frame
  by (auto simp: mark_def split: sum.splits prod.splits option.splits)

lemma mark_matched_keys:
  "attendance (snd (mark_matched e b ts bm st d)) = attendance d \<or>
   (\<exists>rec. attendance (snd (mark_matched e b ts bm st d)) = attendance d @ [rec] \<and>
      att_key rec \<notin> set (map att_key (attendance d)))"
proof (cases "find (\<lambda>a. a_studentId a = studentId st \<and> a_date a = take 10 ts \<and>
              a_session a = or_else (session b) (ts_name (getCurrentTimeSlot (now e))))
            (attendance d)")
  case (Some ex)
  then show ?thesis by (simp add: mark_matched_existing)
next
  case None
  then have fresh: "(studentId st, take 10 ts,
      or_else (session b) (ts_name (getCurrentTimeSlot (now e))))
        \<notin> set (map att_key (attendance d))"
    by (simp add: find_key_None)
  show ?thesis
  proof (cases bm)
    case None
    then show ?thesis using \<open>find _ _ = None\<close> by (simp add: mark_matched_def Let_def)
  next
    case (Some m)
    from mark_matched_new [OF fresh, of m] obtain rec stt where
      "mark_matched e b ts (Some m) st d =
       (Marked (name st) (studentId st)
          (or_else (session b) (ts_name (getCurrentTimeSlot (now e)))) ts (confidence m),
        if write_ok e then d\<lparr>attendance := attendance d @ [rec], statistics := stt\<rparr> else d)"
      and "att_key rec = (studentId st, take 10 ts,
        or_else (session b) (ts_name (getCurrentTimeSlot (now e))))"
      by blast
    then show ?thesis using fresh Some by (cases "write_ok e") auto
  qed
qed

lemma mark_keys:
  "attendance (snd (mark e b d)) = attendance d \<or>
   (\<exists>rec. attendance (snd (mark e b d)) = attendance d @ [rec] \<and>
      att_key rec \<notin> set (map att_key (attendance d)))"
proof (cases "validate_mark b")
  case (Inl r)
  then show ?thesis by (simp add: mark_def)
next
  case (Inr p)
  obtain arr ts where p: "p = (arr, ts)" by (cases p)
  obtain bm ms where f: "findBestMatch (Some arr) (students d) (Some (threshold_of d)) = (bm, ms)"
    by (cases "findBestMatch (Some arr) (students d) (Some (threshold_of d))")
  show ?thesis
  proof (cases ms)
    case None
    then show ?thesis using Inr p f by (simp add: mark_def)
  next
    case (Some st)
    then have "mark e b d = mark_matched e b ts bm st d"
      using Inr p f by (simp add: mark_unfold)
    then show ?thesis using mark_matched_keys [of e b ts bm st d] by simp
  qed
qed

lemma mark_never_throws: "fst (mark e b d) \<noteq> InternalError"
proof (cases "validate_mark b")
  case (Inl r)
  then have "r \<noteq> InternalError"
    by (auto simp: validate_mark_def split: if_splits field.splits)
  then show ?thesis using Inl by (simp add: mark_def)
next
  case (Inr p)
  obtain arr ts where p: "p = (arr, ts)" by (cases p)
  obtain bm ms where f: "findBestMatch (Some arr) (students d) (Some (threshold_of d)) = (bm, ms)"
    by (cases "findBestMatch (Some arr) (students d) (Some (threshold_of d))")
  show ?thesis
  proof (cases ms)
    case None
    then show ?thesis using Inr p f by (simp add: mark_def)
  next
    case (Some st)
    then have "bm \<noteq> None"
      using findBestMatch_paired [of "Some arr" "students d" "Some (threshold_of d)"] f by simp
    then obtain m where m: "bm = Some m" by auto
    have u: "mark e b d = mark_matched e b ts (Some m) st d"
      using Inr p f Some m by (simp add: mark_unfold)
    show ?thesis
      unfolding u by (simp add: mark_matched_def Let_def split: option.splits)
  qed
qed

section \<open>The meal ledger\<close>

lemma find_meal_None:
  "(find (\<lambda>m. m_studentId m = i \<and> m_date m = dt) xs = None) =
     ((i, dt) \<notin> set (map meal_key xs))"
  by (induction xs) (auto simp: meal_key_def)

lemma mark_meal_frame:
  "students (snd (mark_meal e b d)) = students d \<and>
   attendance (snd (mark_meal e b d)) = attendance d"
  by (simp add: mark_meal_def Let_def split: option.splits)

lemma mark_meal_new:
  assumes b: "meal_studentId b = Some sid" "meal_timestamp b = Some t" "sid \<noteq> []" "t \<noteq> []"
    and st: "find (\<lambda>s. studentId s = sid \<and> status s = ''active'') (students d) = Some st"
    and fresh: "(sid, takeWhile (\<lambda>c. c \<noteq> CHR ''T'') t) \<notin> set (map meal_key (meals d))"
    and stats: "statistics d = Some stats"
    and w: "write_ok e"
  shows "\<exists>rec stt.
     mark_meal e b d =
       (MealServed (''Nutritious meal served to '' @ name st @ ''!'') rec
          (name st, studentId st, sclass st),
        d\<lparr>meals := meals d @ [rec], statistics := stt\<rparr>) \<and>
     meal_key rec = (sid, takeWhile (\<lambda>c. c \<noteq> CHR ''T'') t) \<and>
     m_timestamp rec = t"
proof -
  let ?dt = "takeWhile (\<lambda>c. c \<noteq> CHR ''T'') t"
  have f: "find (\<lambda>m. m_studentId m = sid \<and> m_date m = ?dt) (meals d) = None"
    using fresh by (simp add: find_meal_None)
  let ?rec = "\<lparr>m_id = (now_ms e, random_tag e), m_studentId = sid, m_studentName = name st,
      m_studentClass = sclass st, m_date = ?dt, m_timestamp = t, m_status = ''served'',
      m_createdAt = now_iso e, m_ip = client_ip b,
      m_userAgent = or_else (user_agent b) ''Unknown''\<rparr>"
  let ?stt = "Some (stats\<lparr>totalMealsServed := bump (totalMealsServed stats),
      lastUpdated := Some (now_iso e)\<rparr>)"
  have "mark_meal e b d =
       (MealServed (''Nutritious meal served to '' @ name st @ ''!'') ?rec
          (name st, studentId st, sclass st),
        d\<lparr>meals := meals d @ [?rec], statistics := ?stt\<rparr>)"
    unfolding mark_meal_def Let_def by (simp add: b st f stats w)
  moreover have "meal_key ?rec = (sid, ?dt)" "m_timestamp ?rec = t"
    by (simp_all add: meal_key_def)
  ultimately show ?thesis by blast
qed

lemma mark_meal_existing:
  assumes b: "meal_studentId b = Some sid" "meal_timestamp b = Some t" "sid \<noteq> []" "t \<noteq> []"
    and st: "find (\<lambda>s. studentId s = sid \<and> status s = ''active'') (students d) = Some st"
    and ex: "find (\<lambda>m. m_studentId m = sid \<and> m_date m = takeWhile (\<lambda>c. c \<noteq> CHR ''T'') t)
               (meals d) = Some rec"
  shows "mark_meal e b d =
     (MealAlready (''Meal already marked for '' @ name st @ '' today'') rec
        (name st, studentId st, sclass st), d)"
  unfolding mark_meal_def Let_def by (simp add: b st ex)

lemma mark_meal_keys:
  "meals (snd (mark_meal e b d)) = meals d \<or>
   (\<exists>rec. meals (snd (mark_meal e b d)) = meals d @ [rec] \<and>
      meal_key rec \<notin> set (map meal_key (meals d)))"
proof (cases "truthy_str (meal_studentId b) \<and> truthy_str (meal_timestamp b)")
  case False
  then show ?thesis by (auto simp: mark_meal_def)
next
  case True
  then obtain sid t where b: "meal_studentId b = Some sid" "meal_timestamp b = Some t"
      "sid \<noteq> []" "t \<noteq> []"
    by (cases "meal_studentId b"; cases "meal_timestamp b") auto
  let ?dt = "takeWhile (\<lambda>c. c \<noteq> CHR ''T'') t"
  show ?thesis
  proof (cases "find (\<lambda>s. studentId s = sid \<and> status s = ''active'') (students d)")
    case None
    then show ?thesis by (simp add: mark_meal_def Let_def b)
  next
    case st: (Some st)
    show ?thesis
    proof (cases "find (\<lambda>m. m_studentId m = sid \<and> m_date m = ?dt) (meals d)")
      case (Some rec)
      then show ?thesis using mark_meal_existing [OF b st Some] by simp
    next
      case None
      then have fresh: "(sid, ?dt) \<notin> set (map meal_key (meals d))"
        by (simp add: find_meal_None)
      show ?thesis
      proof (cases "statistics d")
        case None
        then show ?thesis using \<open>find _ (meals d) = None\<close>
          by (simp add: mark_meal_def Let_def b st)
      next
        case (Some stats)
        show ?thesis
        proof (cases "write_ok e")
          case True
          from mark_meal_new [OF b st fresh Some True] show ?thesis
            using fresh by auto
        next
          case False
          then show ?thesis using \<open>find _ (meals d) = None\<close> Some
            by (simp add: mark_meal_def Let_def b st)
        qed
      qed
    qed
  qed
qed

section \<open>Both ledgers keep their keys distinct along every run\<close>

lemma handle_att_keys:
  assumes "distinct (map att_key (attendance d))"
  shows "distinct (map att_key (attendance (handle d r)))"
proof (cases r)
  case (AttendanceMark e b)
  then show ?thesis using assms mark_keys [of e b d] by auto
next
  case (MealMark e b)
  then show ?thesis using assms by (simp add: mark_meal_frame)
next
  case (OtherWrite sts se stt)
  then show ?thesis using assms by simp
qed

lemma handle_meal_keys:
  assumes "distinct (map meal_key (meals d))"
  shows "distinct (map meal_key (meals (handle d r)))"
proof (cases r)
  case (AttendanceMark e b)
  then show ?thesis using assms by (simp add: mark_frame)
next
  case (MealMark e b)
  then show ?thesis using assms mark_meal_keys [of e b d] by auto
next
  case (OtherWrite sts se stt)
  then show ?thesis using assms by simp
qed

lemma run_att_keys:
  "distinct (map att_key (attendance d)) \<Longrightarrow> distinct (map att_key (attendance (run d reqs)))"
  unfolding run_def by (induction reqs arbitrary: d) (simp_all add: handle_att_keys)

lemma run_meal_keys:
  "distinct (map meal_key (meals d)) \<Longrightarrow> distinct (map meal_key (meals (run d reqs)))"
  unfolding run_def by (induction reqs arbitrary: d) (simp_all add: handle_meal_keys)

text \<open>
  C2. Two attendance marks that the Matcher resolves to the same student identifier, with
  the same date (the first 10 characters of the timestamp) and the same session label,
  starting from a ledger with no record under that key and with the first write stored:
  the first answers ``marked'' and appends one record, the second answers ``already
  marked'' with that record's timestamp and changes nothing, so the ledger has grown by
  exactly one. No request makes the handler throw, and along every run of the server the
  keys (studentId, date, session) of the attendance records stay pairwise distinct.
\<close>

theorem markAttendance_idempotent:
  assumes v1: "validate_mark b1 = Inr (arr1, ts1)"
    and v2: "validate_mark b2 = Inr (arr2, ts2)"
    and m1: "findBestMatch (Some arr1) (students d) (Some (threshold_of d)) = (Some bm1, Some st1)"
    and m2: "findBestMatch (Some arr2) (students d) (Some (threshold_of d)) = (Some bm2, Some st2)"
    and same_student: "studentId st2 = studentId st1"
    and same_date: "take 10 ts2 = take 10 ts1"
    and l1: "or_else (session b1) (ts_name (getCurrentTimeSlot (now e1))) = label"
    and l2: "or_else (session b2) (ts_name (getCurrentTimeSlot (now e2))) = label"
    and fresh: "(studentId st1, take 10 ts1, label) \<notin> set (map att_key (attendance d))"
    and w: "write_ok e1"
  shows "(\<exists>rec.
           fst (mark e1 b1 d) = Marked (name st1) (studentId st1) label ts1 (confidence bm1) \<and>
           attendance (snd (mark e1 b1 d)) = attendance d @ [rec] \<and>
           att_key rec = (studentId st1, take 10 ts1, label) \<and>
           mark e2 b2 (snd (mark e1 b1 d)) =
             (AlreadyMarked (name st2) (studentId st2) label (a_timestamp rec),
              snd (mark e1 b1 d)) \<and>
           length (attendance (snd (mark e2 b2 (snd (mark e1 b1 d))))) =
             length (attendance d) + 1) \<and>
         (\<forall>e b d'. fst (mark e b d') \<noteq> InternalError) \<and>
         (\<forall>d0 reqs. distinct (map att_key (attendance d0)) \<longrightarrow>
            distinct (map att_key (attendance (run d0 reqs))))"
proof -
  have fresh': "(studentId st1, take 10 ts1,
      or_else (session b1) (ts_name (getCurrentTimeSlot (now e1))))
        \<notin> set (map att_key (attendance d))"
    using fresh l1 by simp
  from mark_matched_new [OF fresh', of bm1] l1 w obtain rec stt where
    first: "mark_matched e1 b1 ts1 (Some bm1) st1 d =
       (Marked (name st1) (studentId st1) label ts1 (confidence bm1),
        d\<lparr>attendance := attendance d @ [rec], statistics := stt\<rparr>)" and
    key: "att_key rec = (studentId st1, take 10 ts1, label)"
    by auto
  let ?d1 = "d\<lparr>attendance := attendance d @ [rec], statistics := stt\<rparr>"
  have r1: "mark e1 b1 d =
      (Marked (name st1) (studentId st1) label ts1 (confidence bm1), ?d1)"
    using mark_unfold [OF v1 m1] first by simp
  have m2': "findBestMatch (Some arr2) (students ?d1) (Some (threshold_of ?d1)) =
      (Some bm2, Some st2)"
    using m2 by (simp add: threshold_of_def)
  have none: "find (\<lambda>a. a_studentId a = studentId st1 \<and> a_date a = take 10 ts1 \<and>
      a_session a = label) (attendance d) = None"
    using fresh by (simp add: find_key_None)
  have hit: "a_studentId rec = studentId st1 \<and> a_date rec = take 10 ts1 \<and> a_session rec = label"
    using key by (simp add: att_key_def)
  have found: "find (\<lambda>a. a_studentId a = studentId st2 \<and> a_date a = take 10 ts2 \<and>
      a_session a = or_else (session b2) (ts_name (getCurrentTimeSlot (now e2))))
        (attendance ?d1) = Some rec"
    using find_snoc_new [OF none hit] by (simp add: same_student same_date l2)
  have r2: "mark e2 b2 ?d1 =
      (AlreadyMarked (name st2) (studentId st2) label (a_timestamp rec), ?d1)"
    using mark_unfold [OF v2 m2'] mark_matched_existing [OF found] l2 by simp
  have "fst (mark e1 b1 d) = Marked (name st1) (studentId st1) label ts1 (confidence bm1) \<and>
        attendance (snd (mark e1 b1 d)) = attendance d @ [rec] \<and>
        att_key rec = (studentId st1, take 10 ts1, label) \<and>
        mark e2 b2 (snd (mark e1 b1 d)) =
          (AlreadyMarked (name st2) (studentId st2) label (a_timestamp rec),
           snd (mark e1 b1 d)) \<and>
        length (attendance (snd (mark e2 b2 (snd (mark e1 b1 d))))) =
          length (attendance d) + 1"
    using key by (simp add: r1 r2)
  then show ?thesis using mark_never_throws run_att_keys by blast
qed

theorem markAttendance_idempotent_witness:
  "validate_mark (scan ''2025-03-10T09:15:00.000Z'' (Some ''Morning Session'') (Some ''morning''))
     = Inr (zeros, ''2025-03-10T09:15:00.000Z'') \<and>
   validate_mark (scan ''2025-03-10T09:47:31.000Z'' (Some ''Morning Session'') None)
     = Inr (zeros, ''2025-03-10T09:47:31.000Z'') \<and>
   findBestMatch (Some zeros) (students school) (Some (threshold_of school)) =
     (Some \<lparr>distance = Fin 0, confidence = Fin 100\<rparr>, Some dana) \<and>
   take 10 ''2025-03-10T09:47:31.000Z'' = take 10 ''2025-03-10T09:15:00.000Z'' \<and>
   (studentId dana, take 10 ''2025-03-10T09:15:00.000Z'', ''Morning Session'')
     \<notin> set (map att_key (attendance school)) \<and>
   write_ok morning_env \<and>
   (\<exists>rec.
      fst (mark morning_env
             (scan ''2025-03-10T09:15:00.000Z'' (Some ''Morning Session'') (Some ''morning''))
             school) =
        Marked ''Dana'' ''S004'' ''Morning Session'' ''2025-03-10T09:15:00.000Z'' (Fin 100) \<and>
      attendance (snd (mark morning_env
             (scan ''2025-03-10T09:15:00.000Z'' (Some ''Morning Session'') (Some ''morning''))
             school)) = [rec] \<and>
      fst (mark night_env (scan ''2025-03-10T09:47:31.000Z'' (Some ''Morning Session'') None)
             (snd (mark morning_env
                (scan ''2025-03-10T09:15:00.000Z'' (Some ''Morning Session'') (Some ''morning''))
                school))) =
        AlreadyMarked ''Dana'' ''S004'' ''Morning Session'' (a_timestamp rec)) \<and>
   length (attendance (snd (mark night_env
       (scan ''2025-03-10T09:47:31.000Z'' (Some ''Morning Session'') None)
       (snd (mark morning_env
          (scan ''2025-03-10T09:15:00.000Z'' (Some ''Morning Session'') (Some ''morning''))
          school))))) = 1 \<and>
   distinct (map att_key (attendance (run school
     [AttendanceMark morning_env
        (scan ''2025-03-10T09:15:00.000Z'' (Some ''Morning Session'') (Some ''morning'')),
      AttendanceMark night_env
        (scan ''2025-03-10T09:47:31.000Z'' (Some ''Morning Session'') None)])))"
proof -
  let ?b1 = "scan ''2025-03-10T09:15:00.000Z'' (Some ''Morning Session'') (Some ''morning'')"
  let ?b2 = "scan ''2025-03-10T09:47:31.000Z'' (Some ''Morning Session'') None"
  have v1: "validate_mark ?b1 = Inr (zeros, ''2025-03-10T09:15:00.000Z'')"
    by (simp add: scan_valid)
  have v2: "validate_mark ?b2 = Inr (zeros, ''2025-03-10T09:47:31.000Z'')"
    by (simp add: scan_valid)
  have sd: "take 10 ''2025-03-10T09:47:31.000Z'' = take 10 ''2025-03-10T09:15:00.000Z''"
    by simp
  have l1: "or_else (session ?b1) (ts_name (getCurrentTimeSlot (now morning_env))) =
      ''Morning Session''"
    by (simp add: or_else_def scan_def)
  have l2: "or_else (session ?b2) (ts_name (getCurrentTimeSlot (now night_env))) =
      ''Morning Session''"
    by (simp add: or_else_def scan_def)
  have fresh: "(studentId dana, take 10 ''2025-03-10T09:15:00.000Z'', ''Morning Session'')
      \<notin> set (map att_key (attendance school))"
    by (simp add: school_def)
  have w: "write_ok morning_env" by (simp add: morning_env_def)
  have inv: "distinct (map att_key (attendance school))" by (simp add: school_def)
  note T = markAttendance_idempotent [OF v1 v2 school_match school_match refl sd l1 l2 fresh w]
  from T obtain rec where
    r: "fst (mark morning_env ?b1 school) =
          Marked (name dana) (studentId dana) ''Morning Session''
            ''2025-03-10T09:15:00.000Z'' (confidence \<lparr>distance = Fin 0, confidence = Fin 100\<rparr>)"
       "attendance (snd (mark morning_env ?b1 school)) = attendance school @ [rec]"
       "mark night_env ?b2 (snd (mark morning_env ?b1 school)) =
          (AlreadyMarked (name dana) (studentId dana) ''Morning Session'' (a_timestamp rec),
           snd (mark morning_env ?b1 school))"
    by blast
  from T inv have run: "distinct (map att_key (attendance (run school
      [AttendanceMark morning_env ?b1, AttendanceMark night_env ?b2])))"
    by blast
  have n: "name dana = ''Dana''" "studentId dana = ''S004''" by (simp_all add: dana_def)
  have a: "attendance school = []" by (simp add: school_def)
  have "fst (mark morning_env ?b1 school) =
          Marked ''Dana'' ''S004'' ''Morning Session'' ''2025-03-10T09:15:00.000Z'' (Fin 100) \<and>
        attendance (snd (mark morning_env ?b1 school)) = [rec] \<and>
        fst (mark night_env ?b2 (snd (mark morning_env ?b1 school))) =
          AlreadyMarked ''Dana'' ''S004'' ''Morning Session'' (a_timestamp rec)"
    using r by (simp add: n a)
  then have ex: "\<exists>rec.
        fst (mark morning_env ?b1 school) =
          Marked ''Dana'' ''S004'' ''Morning Session'' ''2025-03-10T09:15:00.000Z'' (Fin 100) \<and>
        attendance (snd (mark morning_env ?b1 school)) = [rec] \<and>
        fst (mark night_env ?b2 (snd (mark morning_env ?b1 school))) =
          AlreadyMarked ''Dana'' ''S004'' ''Morning Session'' (a_timestamp rec)"
    by blast
  have len: "length (attendance (snd (mark night_env ?b2 (snd (mark morning_env ?b1 school))))) = 1"
    using r by (simp add: a)
  show ?thesis
    using v1 v2 school_match sd fresh w ex len run by blast
qed

text \<open>
  C6. Two meal marks for the same active student whose timestamps have the same date (the
  text before the first \<open>T\<close>), whatever their times of day and whatever the clock,
  starting from a ledger with no record under that (studentId, date) and with the first
  write stored: the first appends one record, the second answers ``already marked'' with
  that very record and changes nothing, so exactly one record has that key. Along every
  run of the server the keys (studentId, date) of the meal records stay pairwise
  distinct; the session is no part of the key.
\<close>

theorem markMeal_once_per_day:
  assumes b1: "meal_studentId b1 = Some sid" "meal_timestamp b1 = Some t1"
    and b2: "meal_studentId b2 = Some sid" "meal_timestamp b2 = Some t2"
    and ne: "sid \<noteq> []" "t1 \<noteq> []" "t2 \<noteq> []"
    and st: "find (\<lambda>s. studentId s = sid \<and> status s = ''active'') (students d) = Some st"
    and same_date: "takeWhile (\<lambda>c. c \<noteq> CHR ''T'') t2 = takeWhile (\<lambda>c. c \<noteq> CHR ''T'') t1"
    and fresh: "(sid, takeWhile (\<lambda>c. c \<noteq> CHR ''T'') t1) \<notin> set (map meal_key (meals d))"
    and stats: "statistics d = Some stats"
    and w: "write_ok e1"
  shows "(\<exists>rec.
           fst (mark_meal e1 b1 d) =
             MealServed (''Nutritious meal served to '' @ name st @ ''!'') rec
               (name st, studentId st, sclass st) \<and>
           meals (snd (mark_meal e1 b1 d)) = meals d @ [rec] \<and>
           meal_key rec = (sid, takeWhile (\<lambda>c. c \<noteq> CHR ''T'') t1) \<and>
           m_timestamp rec = t1 \<and>
           mark_meal e2 b2 (snd (mark_meal e1 b1 d)) =
             (MealAlready (''Meal already marked for '' @ name st @ '' today'') rec
                (name st, studentId st, sclass st),
              snd (mark_meal e1 b1 d)) \<and>
           filter (\<lambda>m. meal_key m = (sid, takeWhile (\<lambda>c. c \<noteq> CHR ''T'') t1))
             (meals (snd (mark_meal e2 b2 (snd (mark_meal e1 b1 d))))) = [rec]) \<and>
         (\<forall>d0 reqs. distinct (map meal_key (meals d0)) \<longrightarrow>
            distinct (map meal_key (meals (run d0 reqs))))"
proof -
  let ?dt = "takeWhile (\<lambda>c. c \<noteq> CHR ''T'') t1"
  from mark_meal_new [OF b1 ne(1,2) st fresh stats w] obtain rec stt where
    r1: "mark_meal e1 b1 d =
       (MealServed (''Nutritious meal served to '' @ name st @ ''!'') rec
          (name st, studentId st, sclass st),
        d\<lparr>meals := meals d @ [rec], statistics := stt\<rparr>)" and
    key: "meal_key rec = (sid, ?dt)" and
    ts: "m_timestamp rec = t1"
    by blast
  let ?d1 = "d\<lparr>meals := meals d @ [rec], statistics := stt\<rparr>"
  have st': "find (\<lambda>s. studentId s = sid \<and> status s = ''active'') (students ?d1) = Some st"
    using st by simp
  have none: "find (\<lambda>m. m_studentId m = sid \<and> m_date m = ?dt) (meals d) = None"
    using fresh by (simp add: find_meal_None)
  have hit: "m_studentId rec = sid \<and> m_date rec = ?dt"
    using key by (simp add: meal_key_def)
  have found: "find (\<lambda>m. m_studentId m = sid \<and>
      m_date m = takeWhile (\<lambda>c. c \<noteq> CHR ''T'') t2) (meals ?d1) = Some rec"
    using find_snoc_new [OF none hit] by (simp add: same_date)
  have r2: "mark_meal e2 b2 ?d1 =
      (MealAlready (''Meal already marked for '' @ name st @ '' today'') rec
         (name st, studentId st, sclass st), ?d1)"
    by (rule mark_meal_existing [OF b2 ne(1,3) st' found])
  have "filter (\<lambda>m. meal_key m = (sid, ?dt)) (meals d) = []"
    using fresh by (force simp: filter_empty_conv)
  then have one: "filter (\<lambda>m. meal_key m = (sid, ?dt)) (meals ?d1) = [rec]"
    using key by simp
  have "fst (mark_meal e1 b1 d) =
          MealServed (''Nutritious meal served to '' @ name st @ ''!'') rec
            (name st, studentId st, sclass st) \<and>
        meals (snd (mark_meal e1 b1 d)) = meals d @ [rec] \<and>
        meal_key rec = (sid, ?dt) \<and>
        m_timestamp rec = t1 \<and>
        mark_meal e2 b2 (snd (mark_meal e1 b1 d)) =
          (MealAlready (''Meal already marked for '' @ name st @ '' today'') rec
             (name st, studentId st, sclass st),
           snd (mark_meal e1 b1 d)) \<and>
        filter (\<lambda>m. meal_key m = (sid, ?dt))
          (meals (snd (mark_meal e2 b2 (snd (mark_meal e1 b1 d))))) = [rec]"
    using key ts one by (simp add: r1 r2)
  then show ?thesis using run_meal_keys by blast
qed

theorem markMeal_once_per_day_witness:
  "find (\<lambda>s. studentId s = ''S004'' \<and> status s = ''active'') (students school) = Some dana \<and>
   takeWhile (\<lambda>c. c \<noteq> CHR ''T'') ''2025-03-10T12:58:41.000Z'' =
     takeWhile (\<lambda>c. c \<noteq> CHR ''T'') ''2025-03-10T12:05:00.000Z'' \<and>
   (''S004'', takeWhile (\<lambda>c. c \<noteq> CHR ''T'') ''2025-03-10T12:05:00.000Z'')
     \<notin> set (map meal_key (meals school)) \<and>
   write_ok morning_env \<and>
   (\<exists>rec.
      meals (snd (mark_meal morning_env (lunch ''2025-03-10T12:05:00.000Z'') school)) = [rec] \<and>
      meal_key rec = (''S004'', ''2025-03-10'') \<and>
      m_timestamp rec = ''2025-03-10T12:05:00.000Z'' \<and>
      mark_meal night_env (lunch ''2025-03-10T12:58:41.000Z'')
          (snd (mark_meal morning_env (lunch ''2025-03-10T12:05:00.000Z'') school)) =
        (MealAlready ''Meal already marked for Dana today'' rec (''Dana'', ''S004'', ''7''),
         snd (mark_meal morning_env (lunch ''2025-03-10T12:05:00.000Z'') school))) \<and>
   distinct (map meal_key (meals (run school
     [MealMark morning_env (lunch ''2025-03-10T12:05:00.000Z''),
      MealMark night_env (lunch ''2025-03-10T12:58:41.000Z'')])))"
proof -
  let ?b1 = "lunch ''2025-03-10T12:05:00.000Z''"
  let ?b2 = "lunch ''2025-03-10T12:58:41.000Z''"
  have b1: "meal_studentId ?b1 = Some ''S004''"
      "meal_timestamp ?b1 = Some ''2025-03-10T12:05:00.000Z''"
    by (simp_all add: lunch_def)
  have b2: "meal_studentId ?b2 = Some ''S004''"
      "meal_timestamp ?b2 = Some ''2025-03-10T12:58:41.000Z''"
    by (simp_all add: lunch_def)
  have ne: "''S004'' \<noteq> []" "''2025-03-10T12:05:00.000Z'' \<noteq> []" "''2025-03-10T12:58:41.000Z'' \<noteq> []"
    by simp_all
  have st: "find (\<lambda>s. studentId s = ''S004'' \<and> status s = ''active'') (students school) =
      Some dana"
    by (simp add: school_def dana_def)
  have dt: "takeWhile (\<lambda>c. c \<noteq> CHR ''T'') ''2025-03-10T12:05:00.000Z'' = ''2025-03-10''"
    by simp
  have sd: "takeWhile (\<lambda>c. c \<noteq> CHR ''T'') ''2025-03-10T12:58:41.000Z'' =
      takeWhile (\<lambda>c. c \<noteq> CHR ''T'') ''2025-03-10T12:05:00.000Z''"
    by simp
  have fresh: "(''S004'', takeWhile (\<lambda>c. c \<noteq> CHR ''T'') ''2025-03-10T12:05:00.000Z'')
      \<notin> set (map meal_key (meals school))"
    by (simp add: school_def)
  have stats: "statistics school = Some \<lparr>totalAttendance = None, totalMealsServed = Some 0,
      lastUpdated = Some ''2025-03-10T03:00:00.000Z''\<rparr>"
    by (simp add: school_def)
  have w: "write_ok morning_env" by (simp add: morning_env_def)
  have inv: "distinct (map meal_key (meals school))" by (simp add: school_def)
  note T = markMeal_once_per_day [OF b1 b2 ne st sd fresh stats w, of night_env]
  from T obtain rec where
    r: "meals (snd (mark_meal morning_env ?b1 school)) = meals school @ [rec]"
       "meal_key rec = (''S004'', takeWhile (\<lambda>c. c \<noteq> CHR ''T'') ''2025-03-10T12:05:00.000Z'')"
       "m_timestamp rec = ''2025-03-10T12:05:00.000Z''"
       "mark_meal night_env ?b2 (snd (mark_meal morning_env ?b1 school)) =
          (MealAlready (''Meal already marked for '' @ name dana @ '' today'') rec
             (name dana, studentId dana, sclass dana),
           snd (mark_meal morning_env ?b1 school))"
    by blast
  from T inv have run: "distinct (map meal_key (meals (run school
      [MealMark morning_env ?b1, MealMark night_env ?b2])))"
    by blast
  have n: "name dana = ''Dana''" "studentId dana = ''S004''" "sclass dana = ''7''"
    by (simp_all add: dana_def)
  have a: "meals school = []" by (simp add: school_def)
  have "meals (snd (mark_meal morning_env ?b1 school)) = [rec] \<and>
      meal_key rec = (''S004'', ''2025-03-10'') \<and>
      m_timestamp rec = ''2025-03-10T12:05:00.000Z'' \<and>
      mark_meal night_env ?b2 (snd (mark_meal morning_env ?b1 school)) =
        (MealAlready ''Meal already marked for Dana today'' rec (''Dana'', ''S004'', ''7''),
         snd (mark_meal morning_env ?b1 school))"
    using r by (simp add: n a dt)
  then have ex: "\<exists>rec.
      meals (snd (mark_meal morning_env ?b1 school)) = [rec] \<and>
      meal_key rec = (''S004'', ''2025-03-10'') \<and>
      m_timestamp rec = ''2025-03-10T12:05:00.000Z'' \<and>
      mark_meal night_env ?b2 (snd (mark_meal morning_env ?b1 school)) =
        (MealAlready ''Meal already marked for Dana today'' rec (''Dana'', ''S004'', ''7''),
         snd (mark_meal morning_env ?b1 school))"
    by blast
  show ?thesis using st sd fresh w ex run by blast
qed


section \<open>Marking outside every session\<close>

lemma find_key_Some:
  "(i, dt, l) \<in> set (map att_key xs) \<Longrightarrow>
   \<exists>ex. find (\<lambda>a. a_studentId a = i \<and> a_date a = dt \<and> a_session a = l) xs = Some ex"
  using find_key_None [of i dt l xs] by (cases "find (\<lambda>a. a_studentId a = i \<and> a_date a = dt \<and> a_session a = l) xs") auto

lemma or_else_present: "s \<noteq> [] \<Longrightarrow> or_else (Some s) x = s"
  by (simp add: or_else_def)

lemma or_else_absent: "\<not> truthy_str a \<Longrightarrow> or_else a x = x"
  by (simp add: or_else_def)

lemma mark_by_bucket:
  assumes v: "validate_mark b = Inr (arr, ts)"
    and m: "findBestMatch (Some arr) (students d) (Some (threshold_of d)) = (Some bm, Some st)"
  shows "((studentId st, take 10 ts, or_else (session b) (ts_name (getCurrentTimeSlot (now e))))
            \<in> set (map att_key (attendance d)) \<longrightarrow>
          (\<exists>t. mark e b d =
             (AlreadyMarked (name st) (studentId st)
                (or_else (session b) (ts_name (getCurrentTimeSlot (now e)))) t, d))) \<and>
         ((studentId st, take 10 ts, or_else (session b) (ts_name (getCurrentTimeSlot (now e))))
            \<notin> set (map att_key (attendance d)) \<longrightarrow>
          fst (mark e b d) =
             Marked (name st) (studentId st)
               (or_else (session b) (ts_name (getCurrentTimeSlot (now e)))) ts (confidence bm))"
proof (intro conjI impI)
  let ?l = "or_else (session b) (ts_name (getCurrentTimeSlot (now e)))"
  assume "(studentId st, take 10 ts, ?l) \<in> set (map att_key (attendance d))"
  from find_key_Some [OF this] obtain ex where
    "find (\<lambda>a. a_studentId a = studentId st \<and> a_date a = take 10 ts \<and> a_session a = ?l)
       (attendance d) = Some ex"
    by blast
  from mark_matched_existing [OF this]
  show "\<exists>t. mark e b d = (AlreadyMarked (name st) (studentId st) ?l t, d)"
    using mark_unfold [OF v m] by simp
next
  let ?l = "or_else (session b) (ts_name (getCurrentTimeSlot (now e)))"
  assume "(studentId st, take 10 ts, ?l) \<notin> set (map att_key (attendance d))"
  from mark_matched_new [OF this, of bm]
  show "fst (mark e b d) = Marked (name st) (studentId st) ?l ts (confidence bm)"
    using mark_unfold [OF v m] by auto
qed

text \<open>
  C10 (amended). A request without a session label, at a time outside every slot, for a
  recognised student who has no record yet under (studentId, date, ``No Active Session''):
  the resolver answers inactive, and the handler still answers ``marked''; when the write
  is stored the new record has the session ``No Active Session'' and the sessionType the
  caller supplied, or ``none'' when the caller supplied none. For every valid request of
  a recognised face, at any clock, the answer is ``already marked'' or ``marked'' under
  the bucket that is the caller's session label when one is present and the resolved slot
  name otherwise.
\<close>

theorem mark_outside_sessions:
  assumes v: "validate_mark b = Inr (arr, ts)"
    and m: "findBestMatch (Some arr) (students d) (Some (threshold_of d)) = (Some bm, Some st)"
    and ns: "\<not> truthy_str (session b)"
    and ok: "tod_ok (hours (now e), minutes (now e))"
    and out: "list_all (\<lambda>(key, s, f, nm).
                \<not> (tod_le s (hours (now e), minutes (now e)) \<and>
                   tod_le (hours (now e), minutes (now e)) f)) default_config"
    and fresh: "(studentId st, take 10 ts, ''No Active Session'')
                  \<notin> set (map att_key (attendance d))"
  shows "ts_active (getCurrentTimeSlot (now e)) = False \<and>
         fst (mark e b d) =
           Marked (name st) (studentId st) ''No Active Session'' ts (confidence bm) \<and>
         (write_ok e \<longrightarrow>
            (\<exists>rec. attendance (snd (mark e b d)) = attendance d @ [rec] \<and>
               att_key rec = (studentId st, take 10 ts, ''No Active Session'') \<and>
               a_sessionType rec = or_else (sessionType b) ''none'')) \<and>
         (\<forall>e' b' arr' ts' bm' st' d'.
            validate_mark b' = Inr (arr', ts') \<and>
            findBestMatch (Some arr') (students d') (Some (threshold_of d')) =
              (Some bm', Some st') \<longrightarrow>
            ((studentId st', take 10 ts',
                or_else (session b') (ts_name (getCurrentTimeSlot (now e'))))
               \<in> set (map att_key (attendance d')) \<longrightarrow>
             (\<exists>t. mark e' b' d' =
                (AlreadyMarked (name st') (studentId st')
                   (or_else (session b') (ts_name (getCurrentTimeSlot (now e')))) t, d'))) \<and>
            ((studentId st', take 10 ts',
                or_else (session b') (ts_name (getCurrentTimeSlot (now e'))))
               \<notin> set (map att_key (attendance d')) \<longrightarrow>
             fst (mark e' b' d') =
                Marked (name st') (studentId st')
                  (or_else (session b') (ts_name (getCurrentTimeSlot (now e')))) ts'
                  (confidence bm')) \<and>
            (\<forall>s. session b' = Some s \<and> s \<noteq> [] \<longrightarrow>
               or_else (session b') (ts_name (getCurrentTimeSlot (now e'))) = s))"
proof -
  have slot: "getCurrentTimeSlot (now e) =
      \<lparr>ts_type = ''none'', ts_name = ''No Active Session'', ts_active = False\<rparr>"
    using getCurrentTimeSlot_default [OF ok] first_slot_none [OF out] by simp
  have l: "or_else (session b) (ts_name (getCurrentTimeSlot (now e))) = ''No Active Session''"
    using ns by (simp add: or_else_absent slot)
  have fresh': "(studentId st, take 10 ts,
      or_else (session b) (ts_name (getCurrentTimeSlot (now e))))
        \<notin> set (map att_key (attendance d))"
    using fresh l by simp
  from mark_matched_new [OF fresh', of bm] obtain rec stt where
    r: "mark_matched e b ts (Some bm) st d =
       (Marked (name st) (studentId st)
          (or_else (session b) (ts_name (getCurrentTimeSlot (now e)))) ts (confidence bm),
        if write_ok e then d\<lparr>attendance := attendance d @ [rec], statistics := stt\<rparr> else d)" and
    key: "att_key rec = (studentId st, take 10 ts,
        or_else (session b) (ts_name (getCurrentTimeSlot (now e))))" and
    sty: "a_sessionType rec = or_else (sessionType b) (ts_type (getCurrentTimeSlot (now e)))"
    by blast
  have u: "mark e b d = mark_matched e b ts (Some bm) st d"
    by (rule mark_unfold [OF v m])
  have 1: "ts_active (getCurrentTimeSlot (now e)) = False" by (simp add: slot)
  have 2: "fst (mark e b d) =
      Marked (name st) (studentId st) ''No Active Session'' ts (confidence bm)"
    using r l by (simp add: u)
  have 3: "write_ok e \<longrightarrow>
      (\<exists>rec. attendance (snd (mark e b d)) = attendance d @ [rec] \<and>
         att_key rec = (studentId st, take 10 ts, ''No Active Session'') \<and>
         a_sessionType rec = or_else (sessionType b) ''none'')"
  proof
    assume "write_ok e"
    then have "attendance (snd (mark e b d)) = attendance d @ [rec]"
      using r by (simp add: u)
    moreover have "att_key rec = (studentId st, take 10 ts, ''No Active Session'')"
      using key l by simp
    moreover have "a_sessionType rec = or_else (sessionType b) ''none''"
      using sty by (simp add: slot)
    ultimately show "\<exists>rec. attendance (snd (mark e b d)) = attendance d @ [rec] \<and>
         att_key rec = (studentId st, take 10 ts, ''No Active Session'') \<and>
         a_sessionType rec = or_else (sessionType b) ''none''"
      by blast
  qed
  have 4: "session b' = Some s \<and> s \<noteq> [] \<longrightarrow>
      or_else (session b') (ts_name (getCurrentTimeSlot (now e'))) = s" for b' s e'
    by (simp add: or_else_present)
  show ?thesis
    using 1 2 3 4 mark_by_bucket by (intro conjI allI impI) blast+
qed

theorem mark_outside_sessions_witness:
  "validate_mark (scan ''2025-03-10T23:00:39.000Z'' None None) =
     Inr (zeros, ''2025-03-10T23:00:39.000Z'') \<and>
   \<not> truthy_str (session (scan ''2025-03-10T23:00:39.000Z'' None None)) \<and>
   tod_ok (hours (now night_env), minutes (now night_env)) \<and>
   list_all (\<lambda>(key, s, f, nm).
      \<not> (tod_le s (hours (now night_env), minutes (now night_env)) \<and>
         tod_le (hours (now night_env), minutes (now night_env)) f)) default_config \<and>
   write_ok night_env \<and>
   fst (mark night_env (scan ''2025-03-10T23:00:39.000Z'' None None) school) =
     Marked ''Dana'' ''S004'' ''No Active Session'' ''2025-03-10T23:00:39.000Z'' (Fin 100) \<and>
   (\<exists>rec. attendance (snd (mark night_env (scan ''2025-03-10T23:00:39.000Z'' None None) school))
            = [rec] \<and>
      att_key rec = (''S004'', ''2025-03-10'', ''No Active Session'') \<and>
      a_sessionType rec = ''none'')"
proof -
  let ?b = "scan ''2025-03-10T23:00:39.000Z'' None None"
  have v: "validate_mark ?b = Inr (zeros, ''2025-03-10T23:00:39.000Z'')"
    by (simp add: scan_valid)
  have ns: "\<not> truthy_str (session ?b)" by (simp add: scan_def)
  have ok: "tod_ok (hours (now night_env), minutes (now night_env))"
    by (simp add: night_env_def tod_ok_def)
  have out: "list_all (\<lambda>(key, s, f, nm).
      \<not> (tod_le s (hours (now night_env), minutes (now night_env)) \<and>
         tod_le (hours (now night_env), minutes (now night_env)) f)) default_config"
    by (simp add: night_env_def default_config_def tod_le_def)
  have fresh: "(studentId dana, take 10 ''2025-03-10T23:00:39.000Z'', ''No Active Session'')
      \<notin> set (map att_key (attendance school))"
    by (simp add: school_def)
  have w: "write_ok night_env" by (simp add: night_env_def)
  note T = mark_outside_sessions [OF v school_match ns ok out fresh]
  from T have r: "fst (mark night_env ?b school) =
      Marked (name dana) (studentId dana) ''No Active Session'' ''2025-03-10T23:00:39.000Z''
        (confidence \<lparr>distance = Fin 0, confidence = Fin 100\<rparr>)"
    by blast
  from T w obtain rec where
    rec: "attendance (snd (mark night_env ?b school)) = attendance school @ [rec]"
      "att_key rec = (studentId dana, take 10 ''2025-03-10T23:00:39.000Z'', ''No Active Session'')"
      "a_sessionType rec = or_else (sessionType ?b) ''none''"
    by blast
  have n: "name dana = ''Dana''" "studentId dana = ''S004''" by (simp_all add: dana_def)
  have a: "attendance school = []" by (simp add: school_def)
  have "attendance (snd (mark night_env ?b school)) = [rec] \<and>
      att_key rec = (''S004'', ''2025-03-10'', ''No Active Session'') \<and>
      a_sessionType rec = ''none''"
    using rec by (simp add: n a or_else_def scan_def)
  then have ex: "\<exists>rec. attendance (snd (mark night_env ?b school)) = [rec] \<and>
      att_key rec = (''S004'', ''2025-03-10'', ''No Active Session'') \<and>
      a_sessionType rec = ''none''"
    by blast
  have r': "fst (mark night_env ?b school) =
      Marked ''Dana'' ''S004'' ''No Active Session'' ''2025-03-10T23:00:39.000Z'' (Fin 100)"
    using r by (simp add: n)
  show ?thesis using v ns ok out w r' ex by blast
qed

theorem mark_outside_sessions_keeps_sessionType:
  "\<not> truthy_str (session (scan ''2025-03-10T23:00:39.000Z'' None (Some ''meal''))) \<and>
   ts_active (getCurrentTimeSlot (now night_env)) = False \<and>
   map a_session (attendance (snd (mark night_env
       (scan ''2025-03-10T23:00:39.000Z'' None (Some ''meal'')) school))) =
     [''No Active Session''] \<and>
   map a_sessionType (attendance (snd (mark night_env
       (scan ''2025-03-10T23:00:39.000Z'' None (Some ''meal'')) school))) = [''meal''] \<and>
   ''meal'' \<noteq> ''none''"
proof -
  let ?b = "scan ''2025-03-10T23:00:39.000Z'' None (Some ''meal'')"
  have slot: "getCurrentTimeSlot (now night_env) =
      \<lparr>ts_type = ''none'', ts_name = ''No Active Session'', ts_active = False\<rparr>"
    by (simp add: getCurrentTimeSlot_default night_env_def tod_ok_def first_slot_default)
  have l: "or_else (session ?b) (ts_name (getCurrentTimeSlot (now night_env))) =
      ''No Active Session''"
    by (simp add: slot or_else_def scan_def)
  have fresh: "(studentId dana, take 10 ''2025-03-10T23:00:39.000Z'',
      or_else (session ?b) (ts_name (getCurrentTimeSlot (now night_env))))
        \<notin> set (map att_key (attendance school))"
    by (simp add: school_def)
  have u: "mark night_env ?b school =
      mark_matched night_env ?b ''2025-03-10T23:00:39.000Z''
        (Some \<lparr>distance = Fin 0, confidence = Fin 100\<rparr>) dana school"
    by (rule mark_unfold [OF scan_valid school_match]) simp
  from mark_matched_new [OF fresh, of "\<lparr>distance = Fin 0, confidence = Fin 100\<rparr>"]
  obtain rec where
    "attendance (snd (mark night_env ?b school)) = attendance school @ [rec]"
    "att_key rec = (studentId dana, take 10 ''2025-03-10T23:00:39.000Z'',
        or_else (session ?b) (ts_name (getCurrentTimeSlot (now night_env))))"
    "a_sessionType rec = or_else (sessionType ?b) (ts_type (getCurrentTimeSlot (now night_env)))"
    unfolding u by (auto simp: night_env_def)
  then have "map a_session (attendance (snd (mark night_env ?b school))) =
        [''No Active Session''] \<and>
      map a_sessionType (attendance (snd (mark night_env ?b school))) = [''meal'']"
    using l by (simp add: school_def att_key_def or_else_def scan_def)
  then show ?thesis by (simp add: slot scan_def)
qed

section \<open>What the attendance route does not check\<close>

lemma zeros_unfold: "zeros = ENum 0 # replicate 127 (ENum 0)"
  using replicate_Suc [of 127 "ENum 0"] by (simp add: zeros_def)

lemma distance_zeros_erin: "euclideanDistance (Some zeros) (Some two_then_zeros) = Fin 2"
proof -
  have "sum_loop zeros two_then_zeros (Fin 0) =
      sum_loop (replicate 127 (ENum 0)) (replicate 127 (ENum 0)) (Fin 4)"
    by (simp add: zeros_unfold two_then_zeros_def js_sub_def)
  also have "\<dots> = Fin 4"
    using sum_loop_replicate [of "ENum 0" 0 "ENum 0" 0 127 4] by simp
  finally have "sum_loop zeros two_then_zeros (Fin 0) = Fin 4" .
  moreover have "length zeros = length two_then_zeros"
    by (simp add: zeros_def two_then_zeros_def)
  moreover have "sqrt 4 = 2" by simp
  ultimately show ?thesis by (simp add: euclideanDistance_def)
qed

lemma round_minus_hundred: "js_round (js_mul (js_sub (Fin 1) (Fin 2)) (Fin 100)) = Fin (- 100)"
  by (simp add: js_sub_def)

lemma erin_match:
  "findBestMatch (Some zeros) [erin] (Some (Fin 3)) =
     (Some \<lparr>distance = Fin 2, confidence = Fin (- 100)\<rparr>, Some erin)"
proof -
  have "considered_pairs (Some zeros) [erin] = [(erin, Fin 2)]"
    by (simp add: considered_pairs_def erin_def descriptor_set_def distance_zeros_erin)
  then show ?thesis
    by (simp add: findBestMatch_foldl report_def round_minus_hundred)
qed

lemma euclideanDistance_not_NegInf: "euclideanDistance a b \<noteq> NegInf"
proof (cases a)
  case None
  then show ?thesis by (simp add: euclideanDistance_def)
next
  case a: (Some d1)
  show ?thesis
  proof (cases b)
    case None
    then show ?thesis by (simp add: euclideanDistance_def a)
  next
    case (Some d2)
    then show ?thesis
      by (cases "sum_loop d1 d2 (Fin 0)") (simp_all add: euclideanDistance_def a)
  qed
qed

lemma match_is_a_distance:
  assumes "findBestMatch inp sts (Some thr) = (Some m, Some st)"
  shows "\<exists>d. distance m = euclideanDistance inp d"
proof -
  from assms have "foldl (spec_step thr) None (considered_pairs inp sts) = Some (st, distance m)"
    by (simp add: findBestMatch_foldl report_Some)
  from spec_best_some [OF this] have "(st, distance m) \<in> set (considered_pairs inp sts)"
    by auto
  then show ?thesis by (auto simp: considered_pairs_def)
qed

lemma confidence_not_negative_below_one:
  assumes "findBestMatch inp sts (Some (Fin t)) = (Some m, Some st)" and "t \<le> 1"
  shows "\<exists>c. confidence m = Fin c \<and> 0 \<le> c"
proof -
  from assms(1) have lt: "js_lt (distance m) (Fin t)" by (rule findBestMatch_below)
  have c: "confidence m = js_round (js_mul (js_sub (Fin 1) (distance m)) (Fin 100))"
    using assms(1) by (simp add: findBestMatch_foldl report_Some)
  from match_is_a_distance [OF assms(1)] have "distance m \<noteq> NegInf"
    by (metis euclideanDistance_not_NegInf)
  with lt obtain x where x: "distance m = Fin x" "x < t"
    by (cases "distance m") auto
  then have "x < 1" using assms(2) by simp
  then have "0 \<le> \<lfloor>(1 - x) * 100 + 1 / 2\<rfloor>" by simp
  then show ?thesis using c x by (simp add: js_sub_def)
qed

text \<open>
  C3 stands against the code. With a threshold above 1 the Matcher of the attendance
  route returns a match at distance 2 and reports the confidence \<open>-100\<close>:
  \<open>Math.round((1 - dist) * 100)\<close> has no clamp. \<open>compareFaces\<close> of
  \<open>FaceRecognitionUtils\<close> reports \<open>0\<close> for the same two descriptors, and the route
  hands the negative number to its caller.
\<close>

theorem findBestMatch_confidence_negative:
  "findBestMatch (Some zeros) [erin] (Some (Fin 3)) =
     (Some \<lparr>distance = Fin 2, confidence = Fin (- 100)\<rparr>, Some erin) \<and>
   js_lt (Fin (- 100)) (Fin 0) \<and>
   compareFaces (Fin (6 / 10)) (Some zeros) (Some two_then_zeros) =
     Inr \<lparr>cmp_distance = Fin 2, cmp_similarity = Fin 0, cmp_isMatch = False,
          cmp_confidence = Fin 0, cmp_threshold = Fin (6 / 10)\<rparr> \<and>
   fst (mark morning_env (scan ''2025-03-10T09:15:00.000Z'' (Some ''Morning Session'') None)
          loose_school) =
     Marked ''Erin'' ''S005'' ''Morning Session'' ''2025-03-10T09:15:00.000Z'' (Fin (- 100))"
proof -
  have len: "length zeros = 128" "length two_then_zeros = 128"
    by (simp_all add: zeros_def two_then_zeros_def)
  have u: "utils_euclideanDistance (Some zeros) (Some two_then_zeros) = Inr (Fin 2)"
    using distance_zeros_erin len
    by (simp add: utils_euclideanDistance_def euclideanDistance_def)
  have cmp: "compareFaces (Fin (6 / 10)) (Some zeros) (Some two_then_zeros) =
     Inr \<lparr>cmp_distance = Fin 2, cmp_similarity = Fin 0, cmp_isMatch = False,
          cmp_confidence = Fin 0, cmp_threshold = Fin (6 / 10)\<rparr>"
    by (simp add: len u js_sub_def Let_def)
  let ?b = "scan ''2025-03-10T09:15:00.000Z'' (Some ''Morning Session'') None"
  have thr: "threshold_of loose_school = Fin 3"
    by (simp add: threshold_of_def loose_school_def)
  have m: "findBestMatch (Some zeros) (students loose_school) (Some (threshold_of loose_school)) =
      (Some \<lparr>distance = Fin 2, confidence = Fin (- 100)\<rparr>, Some erin)"
  proof -
    have "students loose_school = [erin]" by (simp add: loose_school_def)
    then show ?thesis using erin_match by (simp add: thr)
  qed
  have v: "validate_mark ?b = Inr (zeros, ''2025-03-10T09:15:00.000Z'')"
    by (simp add: scan_valid)
  have fresh: "(studentId erin, take 10 ''2025-03-10T09:15:00.000Z'',
      or_else (session ?b) (ts_name (getCurrentTimeSlot (now morning_env))))
        \<notin> set (map att_key (attendance loose_school))"
    by (simp add: loose_school_def)
  have "fst (mark morning_env ?b loose_school) =
      Marked (name erin) (studentId erin)
        (or_else (session ?b) (ts_name (getCurrentTimeSlot (now morning_env))))
        ''2025-03-10T09:15:00.000Z'' (confidence \<lparr>distance = Fin 2, confidence = Fin (- 100)\<rparr>)"
    using mark_by_bucket [OF v m, of morning_env] fresh by blast
  then have r: "fst (mark morning_env ?b loose_school) =
      Marked ''Erin'' ''S005'' ''Morning Session'' ''2025-03-10T09:15:00.000Z'' (Fin (- 100))"
    by (simp add: erin_def or_else_def scan_def)
  show ?thesis using erin_match cmp r by simp
qed

lemma validate_mark_accepts:
  "(validate_mark b = Inr (arr, ts)) =
     (faceDescriptor b = FArr arr \<and> length arr = 128 \<and> timestamp b = Some ts \<and> ts \<noteq> [])"
  by (cases "faceDescriptor b"; cases "timestamp b")
     (auto simp: validate_mark_def)

lemma distance_nulls_zeros:
  "euclideanDistance (Some (replicate 128 ENull)) (Some zeros) = Fin 0"
  using sum_loop_replicate [of ENull 0 "ENum 0" 0 128 0]
  by (simp add: euclideanDistance_def zeros_def)

text \<open>
  C9 stands against the code. The route checks that \<open>faceDescriptor\<close> is an array of
  length 128 and nothing about its elements: an array of 128 \<open>null\<close>s, which
  \<open>validateDescriptor\<close> of \<open>FaceRecognitionUtils\<close> refuses, passes both checks, is
  handed to \<open>findBestMatch\<close>, matches Dana at distance 0 and is written to the
  attendance ledger.
\<close>

theorem mark_accepts_non_numbers:
  "validateDescriptor (faceDescriptor null_scan) = False \<and>
   validate_mark null_scan = Inr (replicate 128 ENull, ''2025-03-10T09:15:00.000Z'') \<and>
   findBestMatch (Some (replicate 128 ENull)) (students school) (Some (threshold_of school)) =
     (Some \<lparr>distance = Fin 0, confidence = Fin 100\<rparr>, Some dana) \<and>
   fst (mark morning_env null_scan school) =
     Marked ''Dana'' ''S004'' ''Morning Session'' ''2025-03-10T09:15:00.000Z'' (Fin 100) \<and>
   map att_key (attendance (snd (mark morning_env null_scan school))) =
     [(''S004'', ''2025-03-10'', ''Morning Session'')]"
proof -
  have 1: "validateDescriptor (faceDescriptor null_scan) = False"
    by (simp add: null_scan_def list_all_iff)
  have v: "validate_mark null_scan = Inr (replicate 128 ENull, ''2025-03-10T09:15:00.000Z'')"
    by (simp add: validate_mark_accepts null_scan_def)
  have "considered_pairs (Some (replicate 128 ENull)) (students school) = [(dana, Fin 0)]"
    by (simp add: considered_pairs_def school_def dana_def descriptor_set_def
        distance_nulls_zeros)
  then have m: "findBestMatch (Some (replicate 128 ENull)) (students school)
      (Some (threshold_of school)) = (Some \<lparr>distance = Fin 0, confidence = Fin 100\<rparr>, Some dana)"
    by (simp add: findBestMatch_foldl school_threshold report_def round_hundred)
  have l: "or_else (session null_scan) (ts_name (getCurrentTimeSlot (now morning_env))) =
      ''Morning Session''"
    by (simp add: or_else_def null_scan_def)
  have fresh: "(studentId dana, take 10 ''2025-03-10T09:15:00.000Z'',
      or_else (session null_scan) (ts_name (getCurrentTimeSlot (now morning_env))))
        \<notin> set (map att_key (attendance school))"
    by (simp add: school_def)
  have u: "mark morning_env null_scan school =
      mark_matched morning_env null_scan ''2025-03-10T09:15:00.000Z''
        (Some \<lparr>distance = Fin 0, confidence = Fin 100\<rparr>) dana school"
    by (rule mark_unfold [OF v m])
  from mark_matched_new [OF fresh, of "\<lparr>distance = Fin 0, confidence = Fin 100\<rparr>"]
  obtain rec where
    "fst (mark morning_env null_scan school) =
       Marked (name dana) (studentId dana)
         (or_else (session null_scan) (ts_name (getCurrentTimeSlot (now morning_env))))
         ''2025-03-10T09:15:00.000Z'' (confidence \<lparr>distance = Fin 0, confidence = Fin 100\<rparr>)"
    "attendance (snd (mark morning_env null_scan school)) = attendance school @ [rec]"
    "att_key rec = (studentId dana, take 10 ''2025-03-10T09:15:00.000Z'',
        or_else (session null_scan) (ts_name (getCurrentTimeSlot (now morning_env))))"
    unfolding u by (auto simp: morning_env_def)
  then have "fst (mark morning_env null_scan school) =
       Marked ''Dana'' ''S004'' ''Morning Session'' ''2025-03-10T09:15:00.000Z'' (Fin 100) \<and>
     map att_key (attendance (snd (mark morning_env null_scan school))) =
       [(''S004'', ''2025-03-10'', ''Morning Session'')]"
    using l by (simp add: school_def dana_def)
  then show ?thesis using 1 v m by simp
qed

end
